theory Spec2Isabelle
  imports Complex_Main "HOL-Library.AList" "HOL-Library.Sublist"
begin

section \<open>Python values\<close>

text \<open>
  The advisor of \<^verbatim>\<open>app/tools/health_advisor.py\<close> works on Python strings and on
  dictionaries of nutrition values. A Python \<^verbatim>\<open>str\<close> is a sequence of Unicode code points,
  so it is modelled as a list of naturals. The source is written in Vietnamese; its string
  literals are given code point by code point, with \<open>ascii\<close> for the ASCII runs. Comments
  quote them with the diacritics dropped.
\<close>

type_synonym pystr = "nat list"

definition ascii :: "string \<Rightarrow> pystr" where
  "ascii s = map of_char s"

text \<open>
  \<^verbatim>\<open>str.strip()\<close> removes leading and trailing white space. The white-space code points
  are those of Python's \<^verbatim>\<open>str.isspace\<close>.
\<close>

definition py_isspace :: "nat \<Rightarrow> bool" where
  "py_isspace c \<longleftrightarrow>
     (0x09 \<le> c \<and> c \<le> 0x0D) \<or> (0x1C \<le> c \<and> c \<le> 0x20) \<or> c = 0x85 \<or> c = 0xA0 \<or>
     c = 0x1680 \<or> (0x2000 \<le> c \<and> c \<le> 0x200A) \<or> c = 0x2028 \<or> c = 0x2029 \<or>
     c = 0x202F \<or> c = 0x205F \<or> c = 0x3000"

definition py_strip :: "pystr \<Rightarrow> pystr" where
  "py_strip s = rev (dropWhile py_isspace (rev (dropWhile py_isspace s)))"

text \<open>
  \<^verbatim>\<open>str.lower()\<close> on the alphabets the advisor is written for: ASCII, Latin-1 and the
  Vietnamese letters (A-breve, D-stroke, I-tilde, U-tilde, O-horn, U-horn and the block
  U+1EA0..U+1EF9, where the capital is the even code point). On these every capital has a
  one-code-point lower case; other code points are left as they are by this model.
\<close>

definition py_lower_cp :: "nat \<Rightarrow> nat" where
  "py_lower_cp c =
     (if 0x41 \<le> c \<and> c \<le> 0x5A then c + 32
      else if 0xC0 \<le> c \<and> c \<le> 0xDE \<and> c \<noteq> 0xD7 then c + 32
      else if c = 0x102 \<or> c = 0x110 \<or> c = 0x128 \<or> c = 0x168 \<or> c = 0x1A0 \<or> c = 0x1AF
        then c + 1
      else if 0x1EA0 \<le> c \<and> c \<le> 0x1EF9 \<and> even c then c + 1
      else c)"

definition py_lower :: "pystr \<Rightarrow> pystr" where
  "py_lower s = map py_lower_cp s"

section \<open>Disease normalization\<close>

text \<open>
  The three canonical disease names of \<^verbatim>\<open>health_advisor.py\<close>, \<^verbatim>\<open>Tieu duong\<close> (diabetes),
  \<^verbatim>\<open>Beo phi\<close> (obesity) and \<^verbatim>\<open>Huyet ap cao\<close> (hypertension), and the fourth one of
  \<^verbatim>\<open>health_advisor_simple.py\<close>, \<^verbatim>\<open>Benh tim mach\<close> (heart disease).
\<close>

definition TIEU_DUONG :: pystr where
  "TIEU_DUONG =
    ascii ''Ti'' @ [0x1EC3] @ ascii ''u '' @ [0x111, 0x1B0, 0x1EDD] @ ascii ''ng''"

definition BEO_PHI :: pystr where
  "BEO_PHI =
    ascii ''B'' @ [0xE9] @ ascii ''o ph'' @ [0xEC]"

definition HUYET_AP_CAO :: pystr where
  "HUYET_AP_CAO =
    ascii ''Huy'' @ [0x1EBF] @ ascii ''t '' @ [0xE1] @ ascii ''p cao''"

definition BENH_TIM_MACH :: pystr where
  "BENH_TIM_MACH =
    ascii ''B'' @ [0x1EC7] @ ascii ''nh tim m'' @ [0x1EA1] @ ascii ''ch''"

text \<open>
  \<^verbatim>\<open>HealthAdvisorTool.DISEASE_MAP\<close> of \<^verbatim>\<open>health_advisor.py\<close>, in source order. Its keys are
  \<^verbatim>\<open>tieu duong\<close>, \<^verbatim>\<open>dai thao duong\<close>, \<^verbatim>\<open>duong huyet cao\<close>, \<^verbatim>\<open>diabetes\<close>, \<^verbatim>\<open>beo\<close>,
  \<^verbatim>\<open>beo phi\<close>, \<^verbatim>\<open>thua can\<close>, \<^verbatim>\<open>obesity\<close>, \<^verbatim>\<open>huyet ap\<close>, \<^verbatim>\<open>tang huyet ap\<close>,
  \<^verbatim>\<open>cao huyet ap\<close>, \<^verbatim>\<open>huyet ap cao\<close> and \<^verbatim>\<open>hypertension\<close>.
\<close>

definition DISEASE_MAP :: "(pystr \<times> pystr) list" where
  "DISEASE_MAP = [
     (ascii ''ti'' @ [0x1EC3] @ ascii ''u '' @ [0x111, 0x1B0, 0x1EDD] @ ascii ''ng'',
        TIEU_DUONG),
     ([0x111, 0xE1] @ ascii ''i th'' @ [0xE1] @ ascii ''o '' @ [0x111, 0x1B0, 0x1EDD]
        @ ascii ''ng'',
        TIEU_DUONG),
     ([0x111, 0x1B0, 0x1EDD] @ ascii ''ng huy'' @ [0x1EBF] @ ascii ''t cao'',
        TIEU_DUONG),
     (ascii ''diabetes'',
        TIEU_DUONG),
     (ascii ''b'' @ [0xE9] @ ascii ''o'',
        BEO_PHI),
     (ascii ''b'' @ [0xE9] @ ascii ''o ph'' @ [0xEC],
        BEO_PHI),
     (ascii ''th'' @ [0x1EEB] @ ascii ''a c'' @ [0xE2] @ ascii ''n'',
        BEO_PHI),
     (ascii ''obesity'',
        BEO_PHI),
     (ascii ''huy'' @ [0x1EBF] @ ascii ''t '' @ [0xE1] @ ascii ''p'',
        HUYET_AP_CAO),
     (ascii ''t'' @ [0x103] @ ascii ''ng huy'' @ [0x1EBF] @ ascii ''t '' @ [0xE1]
        @ ascii ''p'',
        HUYET_AP_CAO),
     (ascii ''cao huy'' @ [0x1EBF] @ ascii ''t '' @ [0xE1] @ ascii ''p'',
        HUYET_AP_CAO),
     (ascii ''huy'' @ [0x1EBF] @ ascii ''t '' @ [0xE1] @ ascii ''p cao'',
        HUYET_AP_CAO),
     (ascii ''hypertension'',
        HUYET_AP_CAO)]"

text \<open>
  \<^verbatim>\<open>HealthAdvisorTool.DISEASE_MAP\<close> of \<^verbatim>\<open>health_advisor_simple.py\<close>. Its keys are
  \<^verbatim>\<open>tieu duong\<close>, \<^verbatim>\<open>dai thao duong\<close>, \<^verbatim>\<open>diabetes\<close>, \<^verbatim>\<open>beo phi\<close>, \<^verbatim>\<open>thua can\<close>,
  \<^verbatim>\<open>obesity\<close>, \<^verbatim>\<open>cao huyet ap\<close>, \<^verbatim>\<open>huyet ap cao\<close>, \<^verbatim>\<open>hypertension\<close>, \<^verbatim>\<open>tim mach\<close> and
  \<^verbatim>\<open>benh tim\<close>.
\<close>

definition DISEASE_MAP_simple :: "(pystr \<times> pystr) list" where
  "DISEASE_MAP_simple = [
     (ascii ''ti'' @ [0x1EC3] @ ascii ''u '' @ [0x111, 0x1B0, 0x1EDD] @ ascii ''ng'',
        TIEU_DUONG),
     ([0x111, 0xE1] @ ascii ''i th'' @ [0xE1] @ ascii ''o '' @ [0x111, 0x1B0, 0x1EDD]
        @ ascii ''ng'',
        TIEU_DUONG),
     (ascii ''diabetes'',
        TIEU_DUONG),
     (ascii ''b'' @ [0xE9] @ ascii ''o ph'' @ [0xEC],
        BEO_PHI),
     (ascii ''th'' @ [0x1EEB] @ ascii ''a c'' @ [0xE2] @ ascii ''n'',
        BEO_PHI),
     (ascii ''obesity'',
        BEO_PHI),
     (ascii ''cao huy'' @ [0x1EBF] @ ascii ''t '' @ [0xE1] @ ascii ''p'',
        HUYET_AP_CAO),
     (ascii ''huy'' @ [0x1EBF] @ ascii ''t '' @ [0xE1] @ ascii ''p cao'',
        HUYET_AP_CAO),
     (ascii ''hypertension'',
        HUYET_AP_CAO),
     (ascii ''tim m'' @ [0x1EA1] @ ascii ''ch'',
        BENH_TIM_MACH),
     (ascii ''b'' @ [0x1EC7] @ ascii ''nh tim'',
        BENH_TIM_MACH)]"

text \<open>
  \<^verbatim>\<open>return self.DISEASE_MAP.get(disease.strip().lower())\<close> in \<^verbatim>\<open>health_advisor.py\<close>;
  \<^verbatim>\<open>disease_lower = disease.lower().strip()\<close> then the same lookup in
  \<^verbatim>\<open>health_advisor_simple.py\<close>.
\<close>

definition normalize_disease_name :: "pystr \<Rightarrow> pystr option" where
  "normalize_disease_name disease = map_of DISEASE_MAP (py_lower (py_strip disease))"

definition normalize_disease_name_simple :: "pystr \<Rightarrow> pystr option" where
  "normalize_disease_name_simple disease = map_of DISEASE_MAP_simple (py_strip (py_lower disease))"

text \<open>The three synonyms the specification names: \<^verbatim>\<open>dai thao duong\<close>, \<^verbatim>\<open>thua can\<close>,
  \<^verbatim>\<open>tang huyet ap\<close>.\<close>

definition DAI_THAO_DUONG :: pystr where
  "DAI_THAO_DUONG =
    [0x111, 0xE1] @ ascii ''i th'' @ [0xE1] @ ascii ''o '' @ [0x111, 0x1B0, 0x1EDD]
    @ ascii ''ng''"

definition THUA_CAN :: pystr where
  "THUA_CAN =
    ascii ''th'' @ [0x1EEB] @ ascii ''a c'' @ [0xE2] @ ascii ''n''"

definition TANG_HUYET_AP :: pystr where
  "TANG_HUYET_AP =
    ascii ''t'' @ [0x103] @ ascii ''ng huy'' @ [0x1EBF] @ ascii ''t '' @ [0xE1] @ ascii ''p''"

section \<open>Nutrition facts\<close>

text \<open>
  The values of a nutrition dictionary: \<^verbatim>\<open>None\<close>, a boolean, a number or a string. A number
  is an \<^verbatim>\<open>int\<close> or a finite \<^verbatim>\<open>float\<close>; either is a rational, and the scorer only compares
  it with integer thresholds, so \<open>PNum\<close> carries a rational (NaN and the infinities are
  outside this model). The dictionary keeps the order of its items.
\<close>

datatype pyval = PNone | PBool bool | PNum rat | PStr pystr

type_synonym nutrition = "(string \<times> pyval) list"

datatype error = TypeError

text \<open>Python truth value of a \<open>pyval\<close>, as \<^verbatim>\<open>or\<close> and \<^verbatim>\<open>if\<close> test it.\<close>

fun truthy :: "pyval \<Rightarrow> bool" where
  "truthy PNone = False"
| "truthy (PBool b) = b"
| "truthy (PNum r) = (r \<noteq> 0)"
| "truthy (PStr s) = (s \<noteq> [])"

text \<open>\<^verbatim>\<open>nutrition.get(key, 0) or 0\<close>: a missing key, \<^verbatim>\<open>None\<close> and every other falsy value
  become the integer 0.\<close>

definition get_or_zero :: "nutrition \<Rightarrow> string \<Rightarrow> pyval" where
  "get_or_zero nutrition key =
     (let v = (case map_of nutrition key of None \<Rightarrow> PNum 0 | Some v \<Rightarrow> v)
      in if truthy v then v else PNum 0)"

text \<open>
  Ordering comparisons of a value with a number. A boolean compares as 0 or 1; a string or
  \<^verbatim>\<open>None\<close> raises \<^verbatim>\<open>TypeError\<close>.
\<close>

fun as_number :: "pyval \<Rightarrow> error + rat" where
  "as_number (PNum r) = Inr r"
| "as_number (PBool b) = Inr (if b then 1 else 0)"
| "as_number PNone = Inl TypeError"
| "as_number (PStr s) = Inl TypeError"

definition py_le :: "pyval \<Rightarrow> rat \<Rightarrow> error + bool" where
  "py_le v t = (case as_number v of Inl e \<Rightarrow> Inl e | Inr r \<Rightarrow> Inr (r \<le> t))"

definition py_ge :: "pyval \<Rightarrow> rat \<Rightarrow> error + bool" where
  "py_ge v t = (case as_number v of Inl e \<Rightarrow> Inl e | Inr r \<Rightarrow> Inr (r \<ge> t))"

definition py_gt :: "pyval \<Rightarrow> rat \<Rightarrow> error + bool" where
  "py_gt v t = (case as_number v of Inl e \<Rightarrow> Inl e | Inr r \<Rightarrow> Inr (r > t))"

text \<open>Sequencing of two steps of which the first may raise.\<close>

definition bind :: "error + 'a \<Rightarrow> ('a \<Rightarrow> error + 'b) \<Rightarrow> error + 'b" where
  "bind m f = (case m of Inl e \<Rightarrow> Inl e | Inr x \<Rightarrow> f x)"

section \<open>The safety score\<close>

text \<open>The categories \<^verbatim>\<open>["rau", "trai cay", "ca"]\<close> (vegetables, fruit, fish) that
  \<^verbatim>\<open>_calculate_safety_score\<close> takes as low in sodium.\<close>

definition low_sodium_categories :: "pyval list" where
  "low_sodium_categories = [PStr (ascii ''rau''), PStr (ascii ''tr'' @ [0xE1] @ ascii ''i c''
                                                        @ [0xE2] @ ascii ''y''), PStr (ascii ''c''
                                                                                                                                                                                     @ [0xE1])]"

text \<open>
  \<^verbatim>\<open>HealthAdvisorTool._calculate_safety_score(nutrition, disease)\<close>. The score starts at 50,
  each disease branch adds or subtracts its deltas in source order, and the result is
  \<^verbatim>\<open>max(0, min(100, score))\<close>. A disease that is none of the three leaves the score at 50.
  \<^verbatim>\<open>nutrition.get("category")\<close> is \<^verbatim>\<open>None\<close> for a missing key.
\<close>

definition calculate_safety_score :: "nutrition \<Rightarrow> pystr \<Rightarrow> error + int" where
  "calculate_safety_score nutrition disease =
     (let score = (50::int);
          calories = get_or_zero nutrition ''calories'';
          carbs = get_or_zero nutrition ''carbs'';
          fat = get_or_zero nutrition ''fat'';
          protein = get_or_zero nutrition ''protein''
      in
      bind
       (if disease = TIEU_DUONG then
          bind (py_le carbs 30) (\<lambda>c30.
          bind (if c30 then Inr (score + 20)
                else bind (py_le carbs 50) (\<lambda>c50.
                  Inr (if c50 then score + 10 else score - 20))) (\<lambda>score.
          bind (py_ge protein 15) (\<lambda>p15.
          let score = (if p15 then score + 15 else score) in
          bind (py_le calories 400) (\<lambda>k400.
          Inr (if k400 then score + 15 else score)))))
        else if disease = BEO_PHI then
          bind (py_le calories 200) (\<lambda>k200.
          bind (if k200 then Inr (score + 25)
                else bind (py_le calories 400) (\<lambda>k400.
                  Inr (if k400 then score + 10 else score - 25))) (\<lambda>score.
          bind (py_le fat 10) (\<lambda>f10.
          if f10 then Inr (score + 15)
          else bind (py_le fat 20) (\<lambda>f20.
            Inr (if f20 then score + 5 else score - 15)))))
        else if disease = HUYET_AP_CAO then
          bind (py_le calories 300) (\<lambda>k300.
          let score = (if k300 then score + 15 else score) in
          bind (py_ge protein 10) (\<lambda>p10.
          let score = (if p10 then score + 10 else score) in
          Inr (if (case map_of nutrition ''category'' of None \<Rightarrow> PNone | Some v \<Rightarrow> v)
                    \<in> set low_sodium_categories
               then score + 20 else score)))
        else Inr score)
       (\<lambda>score. Inr (max 0 (min 100 score))))"

section \<open>The reference score of the specification\<close>

text \<open>
  The piecewise definition of the specification, section 4.2, over its own data model: a
  disease category, the four nutrient values, and whether the food's category is in the
  low-sodium list.
\<close>

datatype disease_category = Diabetes | Obesity | Hypertension

fun canonical_name :: "disease_category \<Rightarrow> pystr" where
  "canonical_name Diabetes = TIEU_DUONG"
| "canonical_name Obesity = BEO_PHI"
| "canonical_name Hypertension = HUYET_AP_CAO"

fun spec_delta :: "disease_category \<Rightarrow> rat \<Rightarrow> rat \<Rightarrow> rat \<Rightarrow> rat \<Rightarrow> bool \<Rightarrow> int" where
  "spec_delta Diabetes calories protein carbs fat low_sodium =
     (if carbs \<le> 30 then 20 else if carbs \<le> 50 then 10 else - 20)
     + (if protein \<ge> 15 then 15 else 0)
     + (if calories \<le> 400 then 15 else 0)"
| "spec_delta Obesity calories protein carbs fat low_sodium =
     (if calories \<le> 200 then 25 else if calories \<le> 400 then 10 else - 25)
     + (if fat \<le> 10 then 15 else if fat \<le> 20 then 5 else - 15)"
| "spec_delta Hypertension calories protein carbs fat low_sodium =
     (if calories \<le> 300 then 15 else 0)
     + (if protein \<ge> 10 then 10 else 0)
     + (if low_sodium then 20 else 0)"

definition spec_score :: "disease_category \<Rightarrow> rat \<Rightarrow> rat \<Rightarrow> rat \<Rightarrow> rat \<Rightarrow> bool \<Rightarrow> int" where
  "spec_score c calories protein carbs fat low_sodium =
     (let total = 50 + spec_delta c calories protein carbs fat low_sodium
      in if total < 0 then 0 else if total > 100 then 100 else total)"

text \<open>
  How a nutrition dictionary is read as the specification's nutrition facts: a field is
  numeric when comparing it does not raise, its value then is the number compared (0 for a
  missing, null or zero entry), and the food is low in sodium when its category is listed.
\<close>

definition numeric_field :: "nutrition \<Rightarrow> string \<Rightarrow> bool" where
  "numeric_field nutrition key =
     (case as_number (get_or_zero nutrition key) of Inl e \<Rightarrow> False | Inr r \<Rightarrow> True)"

definition nutrient :: "nutrition \<Rightarrow> string \<Rightarrow> rat" where
  "nutrient nutrition key = (case as_number (get_or_zero nutrition key) of Inl e \<Rightarrow> 0 | Inr r \<Rightarrow> r)"

definition low_sodium_category :: "nutrition \<Rightarrow> bool" where
  "low_sodium_category nutrition \<longleftrightarrow>
     (case map_of nutrition ''category'' of
        Some (PStr s) \<Rightarrow> s = ascii ''rau'' \<or> s = (ascii ''tr'' @ [0xE1]
                                                                 @ ascii ''i c'' @ [0xE2]
                                                                 @ ascii ''y'') \<or> s = (ascii ''c''
                                                                                                                                                                                                                                                                            @ [0xE1])
      | _ \<Rightarrow> False)"

text \<open>Scenario 1 of the specification: \<^verbatim>\<open>pho bo\<close>, with calories 450, protein 30, carbs 45
  and fat 15.\<close>

definition pho_bo :: nutrition where
  "pho_bo = [(''calories'', PNum 450), (''protein'', PNum 30), (''carbs'', PNum 45),
     (''fat'', PNum 15), (''category'', PStr (ascii ''ph'' @ [0x1EDF]))]"

section \<open>The per-nutrient breakdown and the adjustment suggestions\<close>

text \<open>
  An f-string such as \<^verbatim>\<open>f"{carbs}g"\<close> is kept as its parts, the formatted value and the
  literal text; how Python prints a number is not modelled.
\<close>

datatype fpart = Val pyval | Lit pystr

text \<open>
  One entry of the breakdown, the dictionary with the keys \<^verbatim>\<open>gia_tri\<close> (value),
  \<^verbatim>\<open>gioi_han\<close> (limit, only in the diabetes entry), \<^verbatim>\<open>trang_thai\<close> (status) and \<^verbatim>\<open>ly_do\<close>
  (reason).
\<close>

record nutrient_entry =
  gia_tri :: "fpart list"
  gioi_han :: "pystr option"
  trang_thai :: pystr
  ly_do :: pystr

type_synonym breakdown = "(pystr \<times> nutrient_entry) list"

text \<open>
  \<^verbatim>\<open>HealthAdvisorTool._analyze_nutrients_for_disease(nutrition, disease)\<close>. The statuses are
  \<^verbatim>\<open>AN TOAN\<close> (safe), \<^verbatim>\<open>CHAP NHAN DUOC\<close> (acceptable), \<^verbatim>\<open>NGUY HIEM\<close> (dangerous) for
  diabetes; \<^verbatim>\<open>IT CALO\<close>, \<^verbatim>\<open>TRUNG BINH\<close>, \<^verbatim>\<open>NHIEU CALO\<close> for obesity; and the fixed
  \<^verbatim>\<open>CAN KIEM TRA MUOI\<close> (check the salt) for hypertension.
\<close>

definition analyze_nutrients_for_disease :: "nutrition \<Rightarrow> pystr \<Rightarrow> error + breakdown" where
  "analyze_nutrients_for_disease nutrition disease =
     (let calories = get_or_zero nutrition ''calories'';
          carbs = get_or_zero nutrition ''carbs'';
          fat = get_or_zero nutrition ''fat'';
          protein = get_or_zero nutrition ''protein''
      in
      if disease = TIEU_DUONG then
        bind (py_le carbs 30) (\<lambda>c30.
        bind (if c30 then Inr (ascii ''AN TO'' @ [0xC0] @ ascii ''N'')
              else bind (py_le carbs 50) (\<lambda>c50.
                Inr (if c50 then (ascii ''CH'' @ [0x1EA4] @ ascii ''P NH'' @ [0x1EAC]
                                  @ ascii ''N '' @ [0x110, 0x1AF, 0x1EE2] @ ascii ''C'')
                     else (ascii ''NGUY HI'' @ [0x1EC2] @ ascii ''M'')))) (\<lambda>status.
        Inr [(ascii ''carbohydrate'',
              \<lparr>gia_tri = [Val carbs, Lit (ascii ''g'')],
               gioi_han = Some (ascii ''< 50g/b'' @ [0x1EEF] @ ascii ''a''),
               trang_thai = status,
               ly_do = (ascii ''Carbs cao l'' @ [0xE0] @ ascii ''m t'' @ [0x103] @ ascii ''ng ''
                        @ [0x111, 0x1B0, 0x1EDD] @ ascii ''ng huy'' @ [0x1EBF] @ ascii ''t'')\<rparr>)]))
      else if disease = BEO_PHI then
        bind (py_le calories 200) (\<lambda>k200.
        bind (if k200 then Inr ([0xCD] @ ascii ''T CALO'')
              else bind (py_le calories 400) (\<lambda>k400.
                Inr (if k400 then (ascii ''TRUNG B'' @ [0xCC] @ ascii ''NH'')
                     else (ascii ''NHI'' @ [0x1EC0] @ ascii ''U CALO'')))) (\<lambda>status.
        Inr [(ascii ''calo'',
              \<lparr>gia_tri = [Val calories, Lit (ascii '' kcal'')],
               gioi_han = None,
               trang_thai = status,
               ly_do = (ascii ''Calo cao d'' @ [0x1EAB] @ ascii ''n '' @ [0x111, 0x1EBF]
                        @ ascii ''n t'' @ [0x103] @ ascii ''ng c'' @ [0xE2] @ ascii ''n'')\<rparr>)]))
      else if disease = HUYET_AP_CAO then
        Inr [((ascii ''t'' @ [0x1ED5] @ ascii ''ng_quan''),
              \<lparr>gia_tri = [Val calories, Lit (ascii '' kcal, ''), Val protein,
                         Lit (ascii ''g protein'')],
               gioi_han = None,
               trang_thai = (ascii ''C'' @ [0x1EA6] @ ascii ''N KI'' @ [0x1EC2]
                             @ ascii ''M TRA MU'' @ [0x1ED0] @ ascii ''I''),
               ly_do = (ascii ''C'' @ [0x1EA7] @ ascii ''n tr'' @ [0xE1] @ ascii ''nh mu''
                        @ [0x1ED1] @ ascii ''i v'' @ [0xE0] @ ascii '' th'' @ [0x1EF1]
                        @ ascii ''c ph'' @ [0x1EA9] @ ascii ''m ch'' @ [0x1EBF] @ ascii '' bi''
                        @ [0x1EBF] @ ascii ''n s'' @ [0x1EB5] @ ascii ''n'')\<rparr>)]
      else Inr [])"

text \<open>
  \<^verbatim>\<open>HealthAdvisorTool._get_adjustment_suggestions(nutrition, disease)\<close>: at most three
  suggestions, appended in source order.
\<close>

definition get_adjustment_suggestions :: "nutrition \<Rightarrow> pystr \<Rightarrow> error + pystr list" where
  "get_adjustment_suggestions nutrition disease =
     (let calories = get_or_zero nutrition ''calories'';
          carbs = get_or_zero nutrition ''carbs''
      in
      if disease = TIEU_DUONG then
        bind (py_gt carbs 45) (\<lambda>c45.
        Inr ((if c45 then [(ascii ''Gi'' @ [0x1EA3] @ ascii ''m kh'' @ [0x1EA9] @ ascii ''u ph''
                            @ [0x1EA7] @ ascii ''n xu'' @ [0x1ED1] @ ascii ''ng 1/2''),
                           ([0x102] @ ascii ''n k'' @ [0xE8] @ ascii ''m rau xanh ''
                            @ [0x111, 0x1EC3] @ ascii '' t'' @ [0x103] @ ascii ''ng ch''
                            @ [0x1EA5] @ ascii ''t x'' @ [0x1A1])]
              else [])
             @ [(ascii ''Thay c'' @ [0x1A1] @ ascii ''m tr'' @ [0x1EAF] @ ascii ''ng b''
                 @ [0x1EB1] @ ascii ''ng g'' @ [0x1EA1] @ ascii ''o l'' @ [0x1EE9] @ ascii ''t n''
                 @ [0x1EBF] @ ascii ''u c'' @ [0xF3])]))
      else if disease = BEO_PHI then
        bind (py_gt calories 400) (\<lambda>k400.
        Inr ((if k400 then [(ascii ''Gi'' @ [0x1EA3] @ ascii ''m kh'' @ [0x1EA9] @ ascii ''u ph''
                             @ [0x1EA7] @ ascii ''n xu'' @ [0x1ED1] @ ascii ''ng 2/3''),
                            (ascii ''T'' @ [0x103] @ ascii ''ng rau xanh, gi'' @ [0x1EA3]
                             @ ascii ''m carbs'')]
              else [])
             @ [(ascii ''Ch'' @ [0x1ECD] @ ascii ''n ph'' @ [0x1B0, 0x1A1] @ ascii ''ng ph''
                 @ [0xE1] @ ascii ''p n'' @ [0x1EA5] @ ascii ''u h'' @ [0x1EA5] @ ascii ''p, lu''
                 @ [0x1ED9] @ ascii ''c thay v'' @ [0xEC] @ ascii '' chi'' @ [0xEA] @ ascii ''n'')]))
      else if disease = HUYET_AP_CAO then
        Inr [(ascii ''Y'' @ [0xEA] @ ascii ''u c'' @ [0x1EA7] @ ascii ''u n'' @ [0x1EA5]
              @ ascii ''u '' @ [0xED] @ ascii ''t mu'' @ [0x1ED1] @ ascii ''i ho'' @ [0x1EB7]
              @ ascii ''c kh'' @ [0xF4] @ ascii ''ng mu'' @ [0x1ED1] @ ascii ''i''),
             (ascii ''Kh'' @ [0xF4] @ ascii ''ng th'' @ [0xEA] @ ascii ''m n'' @ [0x1B0, 0x1EDB]
              @ ascii ''c m'' @ [0x1EAF] @ ascii ''m, t'' @ [0x1B0, 0x1A1] @ ascii ''ng ''
              @ [0x1EDB] @ ascii ''t''),
             ([0x102] @ ascii ''n k'' @ [0xE8] @ ascii ''m chu'' @ [0x1ED1] @ ascii ''i ho''
              @ [0x1EB7] @ ascii ''c rau gi'' @ [0xE0] @ ascii ''u kali'')]
      else Inr [])"

section \<open>Resolving nutrition facts\<close>

text \<open>
  The hard-coded table of \<^verbatim>\<open>_get_fallback_nutrition\<close>, in source order: \<^verbatim>\<open>pho bo\<close>,
  \<^verbatim>\<open>com trang\<close>, \<^verbatim>\<open>banh mi\<close>, \<^verbatim>\<open>goi cuon\<close>, \<^verbatim>\<open>com tam\<close>, \<^verbatim>\<open>bun bo hue\<close>, \<^verbatim>\<open>banh xeo\<close>,
  \<^verbatim>\<open>chao ga\<close>. The floats 2.7 and 0.3 are written as the decimals they denote.
\<close>

definition food_db :: "(pystr \<times> nutrition) list" where
  "food_db = [
     ((ascii ''ph'' @ [0x1EDF] @ ascii '' b'' @ [0xF2]),
      [(''calories'', PNum 450), (''protein'', PNum 30), (''carbs'', PNum 45), (''fat'', PNum 15),
       (''category'', PStr (ascii ''ph'' @ [0x1EDF]))]),
     ((ascii ''c'' @ [0x1A1] @ ascii ''m tr'' @ [0x1EAF] @ ascii ''ng''),
      [(''calories'', PNum 130), (''protein'', PNum (27 / 10)), (''carbs'', PNum 28),
       (''fat'', PNum (3 / 10)), (''category'', PStr (ascii ''c'' @ [0x1A1] @ ascii ''m''))]),
     ((ascii ''b'' @ [0xE1] @ ascii ''nh m'' @ [0xEC]),
      [(''calories'', PNum 400), (''protein'', PNum 15), (''carbs'', PNum 50), (''fat'', PNum 18),
       (''category'', PStr (ascii ''b'' @ [0xE1] @ ascii ''nh''))]),
     ((ascii ''g'' @ [0x1ECF] @ ascii ''i cu'' @ [0x1ED1] @ ascii ''n''),
      [(''calories'', PNum 60), (''protein'', PNum 5), (''carbs'', PNum 8), (''fat'', PNum 2),
       (''category'', PStr (ascii ''g'' @ [0x1ECF] @ ascii ''i''))]),
     ((ascii ''c'' @ [0x1A1] @ ascii ''m t'' @ [0x1EA5] @ ascii ''m''),
      [(''calories'', PNum 650), (''protein'', PNum 35), (''carbs'', PNum 70), (''fat'', PNum 22),
       (''category'', PStr (ascii ''c'' @ [0x1A1] @ ascii ''m''))]),
     ((ascii ''b'' @ [0xFA] @ ascii ''n b'' @ [0xF2] @ ascii '' hu'' @ [0x1EBF]),
      [(''calories'', PNum 550), (''protein'', PNum 28), (''carbs'', PNum 55), (''fat'', PNum 20),
       (''category'', PStr (ascii ''b'' @ [0xFA] @ ascii ''n''))]),
     ((ascii ''b'' @ [0xE1] @ ascii ''nh x'' @ [0xE8] @ ascii ''o''),
      [(''calories'', PNum 350), (''protein'', PNum 12), (''carbs'', PNum 40), (''fat'', PNum 16),
       (''category'', PStr (ascii ''b'' @ [0xE1] @ ascii ''nh''))]),
     ((ascii ''ch'' @ [0xE1] @ ascii ''o g'' @ [0xE0]),
      [(''calories'', PNum 280), (''protein'', PNum 20), (''carbs'', PNum 35), (''fat'', PNum 8),
       (''category'', PStr (ascii ''ch'' @ [0xE1] @ ascii ''o''))])]"

text \<open>
  \<^verbatim>\<open>HealthAdvisorTool._get_fallback_nutrition(food_name)\<close>: the first entry whose key
  contains the lower-cased food name or is contained in it (\<^verbatim>\<open>in\<close> on strings is the
  contiguous-substring test), \<^verbatim>\<open>None\<close> when there is none.
\<close>

definition get_fallback_nutrition :: "pystr \<Rightarrow> nutrition option" where
  "get_fallback_nutrition food_name =
     (let food_name_lower = py_lower food_name
      in map_option snd
           (find (\<lambda>(key, data). sublist food_name_lower key \<or> sublist key food_name_lower)
              food_db))"

text \<open>
  The collaborators of \<^verbatim>\<open>app/utils/database_helpers.py\<close> query a SQL database, so what they
  return is a parameter of the model. \<^verbatim>\<open>get_disease_rules\<close> returns \<^verbatim>\<open>None\<close> or a
  dictionary, of which \<^verbatim>\<open>_get_general_health_advice\<close> reads four keys with \<^verbatim>\<open>.get\<close>; a
  field is \<open>None\<close> when its key is missing or maps to \<^verbatim>\<open>None\<close>.
\<close>

record disease_rules =
  guidelines :: "pystr option"
  foods_to_avoid :: "pystr list option"
  recommended_foods :: "pystr list option"
  max_daily_calories :: "rat option"

record database_helpers =
  get_food_nutrition :: "pystr \<Rightarrow> nutrition option"
  get_disease_rules :: "pystr \<Rightarrow> disease_rules option"
  get_suitable_foods_for_disease :: "pystr \<Rightarrow> nat \<Rightarrow> nutrition list"

section \<open>The advisor's results\<close>

text \<open>
  \<^verbatim>\<open>_run\<close> returns \<^verbatim>\<open>json.dumps\<close> of a dictionary; the model returns the dictionary, one
  record per shape, with its keys transliterated. The error result of an unknown disease has
  the keys \<^verbatim>\<open>loi\<close> (error), \<^verbatim>\<open>ban_nhap\<close> (what you entered) and \<^verbatim>\<open>goi_y\<close> (hint); the
  result for a food without nutrition data has \<^verbatim>\<open>loi\<close> and \<^verbatim>\<open>goi_y\<close> only.
\<close>

record error_response =
  loi :: pystr
  ban_nhap :: pystr
  goi_y :: pystr

record no_nutrition_response =
  nf_loi :: pystr
  nf_goi_y :: pystr

text \<open>
  The general advice. The last four keys are only set from the disease rules of the
  database; \<open>None\<close> is an absent key.
\<close>

record general_advice =
  benh :: pystr
  canh_bao_nang_nhat :: "pystr list"
  loi_khuyen_ngan_gon :: pystr
  han_che_nghiem_ngat :: "pystr list"
  nen_an_nhieu :: "pystr list"
  calo_toi_da_moi_bua :: int
  thuc_pham_an_toan_hom_nay :: "nutrition list"
  huong_dan_chi_tiet :: "pystr option"
  tranh_hoan_toan :: "pystr list option"
  khuyen_khich :: "pystr list option"
  gioi_han_calo_ngay :: "rat option"

record food_info =
  ten :: pystr
  khau_phan :: pystr
  dinh_duong_chi_tiet :: nutrition

record food_analysis =
  thong_tin_mon_an :: food_info
  phan_tich_cho_benh :: pystr
  danh_gia_tung_chat :: breakdown
  muc_do_an_toan :: pystr
  diem_so :: int
  loi_khuyen_cu_the :: "pystr list"
  cach_dieu_chinh :: "pystr list"

datatype response =
    ErrorResponse error_response
  | GeneralAdvice general_advice
  | NoNutrition no_nutrition_response
  | FoodAnalysis food_analysis

text \<open>
  \<^verbatim>\<open>HealthAdvisorTool._create_error_response(disease)\<close>. The error text is
  \<^verbatim>\<open>Hien tai chi ho tro 3 benh: Tieu duong, Beo phi, Huyet ap cao\<close> (only 3 diseases are
  supported at present) and the hint is
  \<^verbatim>\<open>Hay nhap: 'tieu duong', 'beo phi', hoac 'huyet ap cao'\<close> (please enter one of them).
\<close>

definition create_error_response :: "pystr \<Rightarrow> response" where
  "create_error_response disease = ErrorResponse
     \<lparr>loi = (ascii ''Hi'' @ [0x1EC7] @ ascii ''n t'' @ [0x1EA1] @ ascii ''i ch''
                    @ [0x1EC9] @ ascii '' h'' @ [0x1ED7] @ ascii '' tr'' @ [0x1EE3]
                    @ ascii '' 3 b'' @ [0x1EC7] @ ascii ''nh: Ti'' @ [0x1EC3] @ ascii ''u ''
                    @ [0x111, 0x1B0, 0x1EDD] @ ascii ''ng, B'' @ [0xE9] @ ascii ''o ph'' @ [0xEC]
                    @ ascii '', Huy'' @ [0x1EBF] @ ascii ''t '' @ [0xE1] @ ascii ''p cao''),
      ban_nhap = disease,
      goi_y = (ascii ''H'' @ [0xE3] @ ascii ''y nh'' @ [0x1EAD] @ ascii ''p: '' @ [0x27]
               @ ascii ''ti'' @ [0x1EC3] @ ascii ''u '' @ [0x111, 0x1B0, 0x1EDD] @ ascii ''ng''
               @ [0x27] @ ascii '', '' @ [0x27] @ ascii ''b'' @ [0xE9] @ ascii ''o ph''
               @ [0xEC, 0x27] @ ascii '', ho'' @ [0x1EB7] @ ascii ''c '' @ [0x27] @ ascii ''huy''
               @ [0x1EBF] @ ascii ''t '' @ [0xE1] @ ascii ''p cao'' @ [0x27])\<rparr>"

section \<open>General advice\<close>

text \<open>\<^verbatim>\<open>_get_critical_nutrients\<close>, \<^verbatim>\<open>_get_disease_advice\<close>, \<^verbatim>\<open>_get_restricted_foods\<close>,
  \<^verbatim>\<open>_get_recommended_foods\<close> and \<^verbatim>\<open>_get_max_calories_per_meal\<close>: the static tables of the
  three diseases, each with its default for any other name.\<close>

definition get_critical_nutrients :: "pystr \<Rightarrow> pystr list" where
  "get_critical_nutrients disease =
     (if disease = TIEU_DUONG then
        [([0x110, 0x1B0, 0x1EDD] @ ascii ''ng''), (ascii ''Tinh b'' @ [0x1ED9]
                                                   @ ascii ''t tinh ch'' @ [0x1EBF]), (ascii ''C''
                                                                                                                                                                      @ [0x1A1]
                                                                                                                                                                      @ ascii ''m tr''
                                                                                                                                                                      @ [0x1EAF]
                                                                                                                                                                      @ ascii ''ng''),
         (ascii ''N'' @ [0x1B0, 0x1EDB] @ ascii ''c ng'' @ [0x1ECD] @ ascii ''t''), (ascii ''B''
                                                                                     @ [0xE1]
                                                                                     @ ascii ''nh k''
                                                                                     @ [0x1EB9]
                                                                                     @ ascii ''o'')]
      else if disease = BEO_PHI then
        [(ascii ''Ch'' @ [0x1EA5] @ ascii ''t b'' @ [0xE9] @ ascii ''o b'' @ [0xE3]
          @ ascii ''o h'' @ [0xF2] @ ascii ''a''), ([0x110, 0x1ED3]
                                                                                                                                        @ ascii '' chi''
                                                                                                                                        @ [0xEA]
                                                                                                                                        @ ascii ''n r''
                                                                                                                                        @ [0xE1]
                                                                                                                                        @ ascii ''n''),
         ([0x110, 0x1ED3] @ ascii '' '' @ [0x103] @ ascii ''n nhanh''), (ascii ''N''
                                                                         @ [0x1B0, 0x1EDB]
                                                                         @ ascii ''c ng''
                                                                         @ [0x1ECD]
                                                                         @ ascii ''t c'' @ [0xF3]
                                                                         @ ascii '' gas''),
         (ascii ''B'' @ [0x1A1] @ ascii '' th'' @ [0x1EF1] @ ascii ''c v'' @ [0x1EAD]
          @ ascii ''t'')]
      else if disease = HUYET_AP_CAO then
        [(ascii ''Mu'' @ [0x1ED1] @ ascii ''i''), (ascii ''M'' @ [0x1EAF] @ ascii ''m''), (ascii ''Th''
                                                                                           @ [0x1ECB]
                                                                                           @ ascii ''t hun kh''
                                                                                           @ [0xF3]
                                                                                           @ ascii ''i''), ([0x110, 0x1ED3]
                                                                                                                                                                                                                                                                                                                                                                                                                                                                                                                                              @ ascii '' h''
                                                                                                                                                                                                                                                                                                                                                                                                                                                                                                                                              @ [0x1ED9]
                                                                                                                                                                                                                                                                                                                                                                                                                                                                                                                                              @ ascii ''p''),
         (ascii ''N'' @ [0x1B0, 0x1EDB] @ ascii ''c m'' @ [0x1EAF] @ ascii ''m c'' @ [0xF4]
          @ ascii ''ng nghi'' @ [0x1EC7] @ ascii ''p'')]
      else [])"

definition get_disease_advice :: "pystr \<Rightarrow> pystr" where
  "get_disease_advice disease =
     (if disease = TIEU_DUONG then
        ([0x102] @ ascii ''n '' @ [0xED] @ ascii ''t '' @ [0x111, 0x1B0, 0x1EDD]
         @ ascii ''ng, nhi'' @ [0x1EC1] @ ascii ''u ch'' @ [0x1EA5] @ ascii ''t x'' @ [0x1A1]
         @ ascii ''. Chia nh'' @ [0x1ECF] @ ascii '' b'' @ [0x1EEF] @ ascii ''a '' @ [0x103]
         @ ascii ''n. Ki'' @ [0x1EC3] @ ascii ''m tra '' @ [0x111, 0x1B0, 0x1EDD]
         @ ascii ''ng huy'' @ [0x1EBF] @ ascii ''t th'' @ [0x1B0, 0x1EDD] @ ascii ''ng xuy''
         @ [0xEA] @ ascii ''n.'')
      else if disease = BEO_PHI then
        (ascii ''Gi'' @ [0x1EA3] @ ascii ''m calo, t'' @ [0x103] @ ascii ''ng v'' @ [0x1EAD]
         @ ascii ''n '' @ [0x111, 0x1ED9] @ ascii ''ng. '' @ [0x102] @ ascii ''n nhi'' @ [0x1EC1]
         @ ascii ''u rau, '' @ [0xED] @ ascii ''t ch'' @ [0x1EA5] @ ascii ''t b'' @ [0xE9]
         @ ascii ''o. U'' @ [0x1ED1] @ ascii ''ng nhi'' @ [0x1EC1] @ ascii ''u n''
         @ [0x1B0, 0x1EDB] @ ascii ''c.'')
      else if disease = HUYET_AP_CAO then
        (ascii ''H'' @ [0x1EA1] @ ascii ''n ch'' @ [0x1EBF] @ ascii '' mu'' @ [0x1ED1]
         @ ascii ''i, t'' @ [0x103] @ ascii ''ng kali. '' @ [0x102] @ ascii ''n nhi'' @ [0x1EC1]
         @ ascii ''u rau qu'' @ [0x1EA3] @ ascii ''. Tr'' @ [0xE1] @ ascii ''nh c'' @ [0x103]
         @ ascii ''ng th'' @ [0x1EB3] @ ascii ''ng.'')
      else
        (ascii ''Tham kh'' @ [0x1EA3] @ ascii ''o '' @ [0xFD] @ ascii '' ki'' @ [0x1EBF]
         @ ascii ''n b'' @ [0xE1] @ ascii ''c s'' @ [0x129] @ ascii '' chuy'' @ [0xEA]
         @ ascii ''n khoa.''))"

definition get_restricted_foods :: "pystr \<Rightarrow> pystr list" where
  "get_restricted_foods disease =
     (if disease = TIEU_DUONG then
        [(ascii ''B'' @ [0xE1] @ ascii ''nh ng'' @ [0x1ECD] @ ascii ''t''), (ascii ''N''
                                                                             @ [0x1B0, 0x1EDB]
                                                                             @ ascii ''c ng''
                                                                             @ [0x1ECD]
                                                                             @ ascii ''t''), (ascii ''C''
                                                                                                                                                                                                                                                                                                                                                                                                                                                                            @ [0x1A1]
                                                                                                                                                                                                                                                                                                                                                                                                                                                                            @ ascii ''m tr''
                                                                                                                                                                                                                                                                                                                                                                                                                                                                            @ [0x1EAF]
                                                                                                                                                                                                                                                                                                                                                                                                                                                                            @ ascii ''ng''),
         (ascii ''B'' @ [0xE1] @ ascii ''nh m'' @ [0xEC] @ ascii '' tr'' @ [0x1EAF]
          @ ascii ''ng''), (ascii ''K''
                                                                                                                @ [0x1EB9]
                                                                                                                @ ascii ''o''), (ascii ''M''
                                                                                                                                                                                                                                                                                                                                                                                        @ [0x1EAD]
                                                                                                                                                                                                                                                                                                                                                                                        @ ascii ''t ong''),
         (ascii ''Tr'' @ [0xE1] @ ascii ''i c'' @ [0xE2] @ ascii ''y ng'' @ [0x1ECD]
          @ ascii ''t'')]
      else if disease = BEO_PHI then
        [([0x110, 0x1ED3] @ ascii '' chi'' @ [0xEA] @ ascii ''n''), (ascii ''B'' @ [0xE1]
                                                                     @ ascii ''nh k'' @ [0x1EB9]
                                                                     @ ascii ''o''), (ascii ''N''
                                                                                                                                                                                                                                                                                 @ [0x1B0, 0x1EDB]
                                                                                                                                                                                                                                                                                 @ ascii ''c ng''
                                                                                                                                                                                                                                                                                 @ [0x1ECD]
                                                                                                                                                                                                                                                                                 @ ascii ''t''),
         (ascii ''Th'' @ [0x1EE9] @ ascii ''c '' @ [0x103] @ ascii ''n nhanh''), ascii ''Kem'', (ascii ''B''
                                                                                                 @ [0xE1]
                                                                                                 @ ascii ''nh quy''),
         ([0x110, 0x1ED3] @ ascii '' u'' @ [0x1ED1] @ ascii ''ng c'' @ [0xF3] @ ascii '' c''
          @ [0x1ED3] @ ascii ''n'')]
      else if disease = HUYET_AP_CAO then
        [(ascii ''Mu'' @ [0x1ED1] @ ascii ''i '' @ [0x103] @ ascii ''n''), (ascii ''N''
                                                                            @ [0x1B0, 0x1EDB]
                                                                            @ ascii ''c m''
                                                                            @ [0x1EAF]
                                                                            @ ascii ''m''), (ascii ''T''
                                                                                                                                                                                                                                                                                                                                                                                                                                                                      @ [0x1B0, 0x1A1]
                                                                                                                                                                                                                                                                                                                                                                                                                                                                      @ ascii ''ng ''
                                                                                                                                                                                                                                                                                                                                                                                                                                                                      @ [0x1EDB]
                                                                                                                                                                                                                                                                                                                                                                                                                                                                      @ ascii ''t''),
         (ascii ''Th'' @ [0x1ECB] @ ascii ''t hun kh'' @ [0xF3] @ ascii ''i''), ([0x110, 0x1ED3]
                                                                                 @ ascii '' h''
                                                                                 @ [0x1ED9]
                                                                                 @ ascii ''p''), (ascii ''M''
                                                                                                                                                                                                                                                                                                                                                                                               @ [0xEC]
                                                                                                                                                                                                                                                                                                                                                                                               @ ascii '' g''
                                                                                                                                                                                                                                                                                                                                                                                               @ [0xF3]
                                                                                                                                                                                                                                                                                                                                                                                               @ ascii ''i''),
         (ascii ''B'' @ [0xE1] @ ascii ''nh tr'' @ [0xE1] @ ascii ''ng n'' @ [0x1B0, 0x1EDB]
          @ ascii ''ng'')]
      else [])"

definition get_recommended_foods :: "pystr \<Rightarrow> pystr list" where
  "get_recommended_foods disease =
     (if disease = TIEU_DUONG then
        [ascii ''Rau xanh'', (ascii ''C'' @ [0xE1]), (ascii ''Tr'' @ [0x1EE9] @ ascii ''ng''), (ascii ''Y''
                                                                                                @ [0x1EBF]
                                                                                                @ ascii ''n m''
                                                                                                @ [0x1EA1]
                                                                                                @ ascii ''ch''),
         ([0x110, 0x1EAD] @ ascii ''u''), (ascii ''Qu'' @ [0x1EA3] @ ascii '' b'' @ [0x1A1]), (ascii ''H''
                                                                                               @ [0x1EA1]
                                                                                               @ ascii ''t ''
                                                                                               @ [0xF3]
                                                                                               @ ascii ''c ch''
                                                                                               @ [0xF3])]
      else if disease = BEO_PHI then
        [(ascii ''Rau c'' @ [0x1EE7]), (ascii ''Tr'' @ [0xE1] @ ascii ''i c'' @ [0xE2]
                                        @ ascii ''y '' @ [0xED] @ ascii ''t ''
                                        @ [0x111, 0x1B0, 0x1EDD] @ ascii ''ng''), (ascii ''C''
                                                                                                                                                                                                                                                         @ [0xE1]),
         ([0x1EE8] @ ascii ''c g'' @ [0xE0]), ([0x110, 0x1EAD] @ ascii ''u''), (ascii ''Y''
                                                                                @ [0x1EBF]
                                                                                @ ascii ''n m''
                                                                                @ [0x1EA1]
                                                                                @ ascii ''ch''),
         (ascii ''N'' @ [0x1B0, 0x1EDB] @ ascii ''c l'' @ [0x1ECD] @ ascii ''c'')]
      else if disease = HUYET_AP_CAO then
        [(ascii ''Chu'' @ [0x1ED1] @ ascii ''i''), ascii ''Rau bina'', (ascii ''C'' @ [0xE1]
                                                                        @ ascii '' h'' @ [0x1ED3]
                                                                        @ ascii ''i''), (ascii ''Y''
                                                                                                                                                                                                                                                                                        @ [0x1EBF]
                                                                                                                                                                                                                                                                                        @ ascii ''n m''
                                                                                                                                                                                                                                                                                        @ [0x1EA1]
                                                                                                                                                                                                                                                                                        @ ascii ''ch''),
         ([0x110, 0x1EAD] @ ascii ''u '' @ [0x111] @ ascii ''en''), (ascii ''H'' @ [0x1EA1]
                                                                     @ ascii ''t lanh''), (ascii ''Tr''
                                                                                                                                                                                       @ [0xE0]
                                                                                                                                                                                       @ ascii '' xanh'')]
      else [])"

definition get_max_calories_per_meal :: "pystr \<Rightarrow> int" where
  "get_max_calories_per_meal disease =
     (if disease = TIEU_DUONG then 500
      else if disease = BEO_PHI then 400
      else if disease = HUYET_AP_CAO then 600
      else 500)"

text \<open>
  \<^verbatim>\<open>HealthAdvisorTool._get_general_health_advice(disease)\<close>. The suitable foods are asked
  for with \<^verbatim>\<open>limit=5\<close>. From the disease rules, when there are any, a truthy
  \<^verbatim>\<open>guidelines\<close> is cut to 300 characters followed by \<^verbatim>\<open>...\<close> when it is longer, truthy
  \<^verbatim>\<open>foods_to_avoid\<close> and \<^verbatim>\<open>recommended_foods\<close> are cut to their first five items with
  \<^verbatim>\<open>[:5]\<close>, and a truthy \<^verbatim>\<open>max_daily_calories\<close> is copied.
\<close>

definition get_general_health_advice :: "database_helpers \<Rightarrow> pystr \<Rightarrow> response" where
  "get_general_health_advice db disease =
     (let rules = get_disease_rules db disease;
          suitable_foods = get_suitable_foods_for_disease db disease 5
      in GeneralAdvice
        \<lparr>benh = disease,
         canh_bao_nang_nhat = get_critical_nutrients disease,
         loi_khuyen_ngan_gon = get_disease_advice disease,
         han_che_nghiem_ngat = get_restricted_foods disease,
         nen_an_nhieu = get_recommended_foods disease,
         calo_toi_da_moi_bua = get_max_calories_per_meal disease,
         thuc_pham_an_toan_hom_nay = suitable_foods,
         huong_dan_chi_tiet =
           (case rules of None \<Rightarrow> None
            | Some r \<Rightarrow>
               (case guidelines r of None \<Rightarrow> None
                | Some g \<Rightarrow>
                   if g = [] then None
                   else Some (if length g > 300 then take 300 g @ ascii ''...'' else g))),
         tranh_hoan_toan =
           (case rules of None \<Rightarrow> None
            | Some r \<Rightarrow>
               (case foods_to_avoid r of None \<Rightarrow> None
                | Some l \<Rightarrow> if l = [] then None else Some (take 5 l))),
         khuyen_khich =
           (case rules of None \<Rightarrow> None
            | Some r \<Rightarrow>
               (case recommended_foods r of None \<Rightarrow> None
                | Some l \<Rightarrow> if l = [] then None else Some (take 5 l))),
         gioi_han_calo_ngay =
           (case rules of None \<Rightarrow> None
            | Some r \<Rightarrow>
               (case max_daily_calories r of None \<Rightarrow> None
                | Some c \<Rightarrow> if c = 0 then None else Some c))\<rparr>)"

section \<open>Food analysis\<close>

text \<open>
  The three safety levels of \<^verbatim>\<open>_analyze_food_for_disease\<close>, each a label ending in an emoji:
  \<^verbatim>\<open>RAT AN TOAN\<close> (very safe), \<^verbatim>\<open>CHAP NHAN DUOC\<close> (acceptable) and \<^verbatim>\<open>KHONG NEN AN\<close> (should not
  be eaten).
\<close>

definition RAT_AN_TOAN :: pystr where
  "RAT_AN_TOAN = (ascii ''R'' @ [0x1EA4] @ ascii ''T AN TO'' @ [0xC0] @ ascii ''N '' @ [0x2705])"

definition CHAP_NHAN_DUOC :: pystr where
  "CHAP_NHAN_DUOC = (ascii ''CH'' @ [0x1EA4] @ ascii ''P NH'' @ [0x1EAC] @ ascii ''N ''
                     @ [0x110, 0x1AF, 0x1EE2] @ ascii ''C '' @ [0x26A0, 0xFE0F])"

definition KHONG_NEN_AN :: pystr where
  "KHONG_NEN_AN = (ascii ''KH'' @ [0xD4] @ ascii ''NG N'' @ [0xCA] @ ascii ''N '' @ [0x102]
                   @ ascii ''N '' @ [0x274C])"

text \<open>
  \<^verbatim>\<open>HealthAdvisorTool._analyze_food_for_disease(disease, food_name, portion_size)\<close>.
  \<^verbatim>\<open>not nutrition_info\<close> holds for \<^verbatim>\<open>None\<close> and for the empty dictionary. Without nutrition
  data the result is the error \<^verbatim>\<open>Khong tim thay thong tin dinh duong cho '<food_name>'\<close> (no
  nutrition information found) with a hint naming four dishes. Otherwise the score is
  computed first, the level and the advice are chosen from it, and the breakdown and the
  suggestions follow; an exception of any of them leaves the function.
\<close>

definition falsy_dict :: "nutrition option \<Rightarrow> bool" where
  "falsy_dict d = (case d of None \<Rightarrow> True | Some n \<Rightarrow> n = [])"

definition analyze_food_for_disease ::
  "database_helpers \<Rightarrow> pystr \<Rightarrow> pystr \<Rightarrow> pystr \<Rightarrow> error + response" where
  "analyze_food_for_disease db disease food_name portion_size =
     (let nutrition_info = get_food_nutrition db food_name;
          nutrition_info =
            (if falsy_dict nutrition_info then get_fallback_nutrition food_name
             else nutrition_info)
      in
      case nutrition_info of
        None \<Rightarrow> Inr (NoNutrition
          \<lparr>nf_loi = (ascii ''Kh'' @ [0xF4] @ ascii ''ng t'' @ [0xEC] @ ascii ''m th''
                            @ [0x1EA5] @ ascii ''y th'' @ [0xF4] @ ascii ''ng tin dinh d''
                            @ [0x1B0, 0x1EE1] @ ascii ''ng cho '' @ [0x27]) @ food_name @ [0x27],
           nf_goi_y = (ascii ''Th'' @ [0x1EED] @ ascii '' v'' @ [0x1EDB] @ ascii ''i t'' @ [0xEA]
                       @ ascii ''n m'' @ [0xF3] @ ascii ''n '' @ [0x103] @ ascii ''n kh'' @ [0xE1]
                       @ ascii ''c nh'' @ [0x1B0] @ ascii '': ph'' @ [0x1EDF] @ ascii '' b''
                       @ [0xF2] @ ascii '', c'' @ [0x1A1] @ ascii ''m t'' @ [0x1EA5]
                       @ ascii ''m, b'' @ [0xE1] @ ascii ''nh m'' @ [0xEC] @ ascii '', g''
                       @ [0x1ECF] @ ascii ''i cu'' @ [0x1ED1] @ ascii ''n'')\<rparr>)
      | Some nutrition \<Rightarrow>
          if nutrition = [] then Inr (NoNutrition
            \<lparr>nf_loi = (ascii ''Kh'' @ [0xF4] @ ascii ''ng t'' @ [0xEC] @ ascii ''m th''
                              @ [0x1EA5] @ ascii ''y th'' @ [0xF4] @ ascii ''ng tin dinh d''
                              @ [0x1B0, 0x1EE1] @ ascii ''ng cho '' @ [0x27]) @ food_name @ [0x27],
             nf_goi_y = (ascii ''Th'' @ [0x1EED] @ ascii '' v'' @ [0x1EDB] @ ascii ''i t''
                         @ [0xEA] @ ascii ''n m'' @ [0xF3] @ ascii ''n '' @ [0x103]
                         @ ascii ''n kh'' @ [0xE1] @ ascii ''c nh'' @ [0x1B0] @ ascii '': ph''
                         @ [0x1EDF] @ ascii '' b'' @ [0xF2] @ ascii '', c'' @ [0x1A1]
                         @ ascii ''m t'' @ [0x1EA5] @ ascii ''m, b'' @ [0xE1] @ ascii ''nh m''
                         @ [0xEC] @ ascii '', g'' @ [0x1ECF] @ ascii ''i cu'' @ [0x1ED1]
                         @ ascii ''n'')\<rparr>)
          else
            bind (calculate_safety_score nutrition disease) (\<lambda>score.
            let (level, advice) =
              (if score \<ge> 80 then
                 (RAT_AN_TOAN, (ascii ''M'' @ [0xF3] @ ascii ''n '' @ [0x103] @ ascii ''n n''
                                @ [0xE0] @ ascii ''y r'' @ [0x1EA5] @ ascii ''t ph'' @ [0xF9]
                                @ ascii '' h'' @ [0x1EE3] @ ascii ''p v'' @ [0x1EDB]
                                @ ascii ''i b'' @ [0x1EC7] @ ascii ''nh l'' @ [0xFD]
                                @ ascii '' c'' @ [0x1EE7] @ ascii ''a b'' @ [0x1EA1]
                                @ ascii ''n''))
               else if score \<ge> 60 then
                 (CHAP_NHAN_DUOC, (ascii ''C'' @ [0xF3] @ ascii '' th'' @ [0x1EC3] @ ascii '' ''
                                   @ [0x103] @ ascii ''n nh'' @ [0x1B0] @ ascii ''ng c''
                                   @ [0x1EA7] @ ascii ''n h'' @ [0x1EA1] @ ascii ''n ch''
                                   @ [0x1EBF] @ ascii '' kh'' @ [0x1EA9] @ ascii ''u ph''
                                   @ [0x1EA7] @ ascii ''n''))
               else
                 (KHONG_NEN_AN, (ascii ''N'' @ [0xEA] @ ascii ''n tr'' @ [0xE1] @ ascii ''nh m''
                                 @ [0xF3] @ ascii ''n '' @ [0x103] @ ascii ''n n'' @ [0xE0]
                                 @ ascii ''y'')))
            in
            bind (analyze_nutrients_for_disease nutrition disease) (\<lambda>nutrients.
            bind (get_adjustment_suggestions nutrition disease) (\<lambda>suggestions.
            Inr (FoodAnalysis
              \<lparr>thong_tin_mon_an =
                 \<lparr>ten = food_name, khau_phan = portion_size, dinh_duong_chi_tiet = nutrition\<rparr>,
               phan_tich_cho_benh = disease,
               danh_gia_tung_chat = nutrients,
               muc_do_an_toan = level,
               diem_so = score,
               loi_khuyen_cu_the = [advice],
               cach_dieu_chinh = suggestions\<rparr>)))))"

section \<open>The entry point\<close>

text \<open>
  \<^verbatim>\<open>HealthAdvisorTool._run(disease, food_name=None, portion_size)\<close>. An unknown disease
  (\<^verbatim>\<open>not standardized_disease\<close>) gives the error result. A food name that is given, not
  empty and not blank after \<^verbatim>\<open>strip()\<close> selects the food analysis, everything else the
  general advice.
\<close>

definition run :: "database_helpers \<Rightarrow> pystr \<Rightarrow> pystr option \<Rightarrow> pystr \<Rightarrow> error + response" where
  "run db disease food_name portion_size =
     (case normalize_disease_name disease of
        None \<Rightarrow> Inr (create_error_response disease)
      | Some standardized_disease \<Rightarrow>
          if standardized_disease = [] then Inr (create_error_response disease)
          else
            (case food_name of
               None \<Rightarrow> Inr (get_general_health_advice db standardized_disease)
             | Some name \<Rightarrow>
                 if name \<noteq> [] \<and> py_strip name \<noteq> [] then
                   analyze_food_for_disease db standardized_disease name portion_size
                 else Inr (get_general_health_advice db standardized_disease)))"

section \<open>Observers and example inputs\<close>

text \<open>Projections of a result, used to state what a result contains.\<close>

fun analysis_of :: "response \<Rightarrow> food_analysis option" where
  "analysis_of (FoodAnalysis a) = Some a"
| "analysis_of r = None"

fun general_of :: "response \<Rightarrow> general_advice option" where
  "general_of (GeneralAdvice g) = Some g"
| "general_of r = None"

text \<open>
  Inputs of the examples: the default portion \<^verbatim>\<open>1 phan\<close>, the dish \<^verbatim>\<open>pho bo\<close>, the
  specification's unknown disease \<^verbatim>\<open>benh la\<close> and unknown dish \<^verbatim>\<open>mon khong ton tai\<close>.
\<close>

definition MOT_PHAN :: pystr where
  "MOT_PHAN = (ascii ''1 ph'' @ [0x1EA7] @ ascii ''n'')"

definition PHO_BO :: pystr where
  "PHO_BO = (ascii ''ph'' @ [0x1EDF] @ ascii '' b'' @ [0xF2])"

definition BENH_LA :: pystr where
  "BENH_LA = (ascii ''b'' @ [0x1EC7] @ ascii ''nh l'' @ [0x1EA1])"

definition MON_KHONG_TON_TAI :: pystr where
  "MON_KHONG_TON_TAI = (ascii ''m'' @ [0xF3] @ ascii ''n kh'' @ [0xF4] @ ascii ''ng t''
                        @ [0x1ED3] @ ascii ''n t'' @ [0x1EA1] @ ascii ''i'')"

text \<open>
  A database without food rows, whose only disease rules are those of \<^verbatim>\<open>Beo phi\<close> in
  \<^verbatim>\<open>DatabaseHelpers._get_fallback_disease_rules\<close>.
\<close>

definition example_db :: database_helpers where
  "example_db =
     \<lparr>get_food_nutrition = (\<lambda>food_name. None),
      get_disease_rules = (\<lambda>disease.
        if disease = BEO_PHI then Some
          \<lparr>guidelines = Some (ascii ''Gi'' @ [0x1EA3] @ ascii ''m calo, t'' @ [0x103]
                                     @ ascii ''ng v'' @ [0x1EAD] @ ascii ''n '' @ [0x111, 0x1ED9]
                                     @ ascii ''ng. '' @ [0x102] @ ascii ''n nhi'' @ [0x1EC1]
                                     @ ascii ''u rau, '' @ [0xED] @ ascii ''t ch'' @ [0x1EA5]
                                     @ ascii ''t b'' @ [0xE9] @ ascii ''o.''),
           foods_to_avoid = Some [([0x111, 0x1ED3] @ ascii '' chi'' @ [0xEA] @ ascii ''n''), (ascii ''th''
                                                                                              @ [0x1EE9]
                                                                                              @ ascii ''c ''
                                                                                              @ [0x103]
                                                                                              @ ascii ''n nhanh''),
             (ascii ''n'' @ [0x1B0, 0x1EDB] @ ascii ''c ng'' @ [0x1ECD] @ ascii ''t'')],
           recommended_foods = Some [(ascii ''rau c'' @ [0x1EE7]), (ascii ''tr'' @ [0xE1]
                                                                    @ ascii ''i c'' @ [0xE2]
                                                                    @ ascii ''y '' @ [0xED]
                                                                    @ ascii ''t ''
                                                                    @ [0x111, 0x1B0, 0x1EDD]
                                                                    @ ascii ''ng''),
             ([0x1EE9] @ ascii ''c g'' @ [0xE0]), (ascii ''c'' @ [0xE1])],
           max_daily_calories = Some 1500\<rparr>
        else None),
      get_suitable_foods_for_disease = (\<lambda>disease limit. [])\<rparr>"

text \<open>A database whose food lookup returns a row with negative calories.\<close>

definition negative_food :: nutrition where
  "negative_food = [(''name'', PStr (ascii ''x'')), (''calories'', PNum (- 100)),
     (''protein'', PNum 20), (''carbs'', PNum 10), (''fat'', PNum 5)]"

definition negative_db :: database_helpers where
  "negative_db =
     \<lparr>get_food_nutrition = (\<lambda>food_name. Some negative_food),
      get_disease_rules = (\<lambda>disease. None),
      get_suitable_foods_for_disease = (\<lambda>disease limit. [])\<rparr>"

section \<open>Basic facts\<close>

lemmas canonical_defs = ascii_def TIEU_DUONG_def BEO_PHI_def HUYET_AP_CAO_def BENH_TIM_MACH_def

lemmas normalizer_defs = py_lower_def py_lower_cp_def py_strip_def py_isspace_def

lemma canonical_distinct:
  "TIEU_DUONG \<noteq> BEO_PHI" "TIEU_DUONG \<noteq> HUYET_AP_CAO" "BEO_PHI \<noteq> HUYET_AP_CAO"
  "BEO_PHI \<noteq> TIEU_DUONG" "HUYET_AP_CAO \<noteq> TIEU_DUONG" "HUYET_AP_CAO \<noteq> BEO_PHI"
  by (simp_all add: canonical_defs)

lemma canonical_nonempty:
  "TIEU_DUONG \<noteq> []" "BEO_PHI \<noteq> []" "HUYET_AP_CAO \<noteq> []"
  by (simp_all add: canonical_defs)

lemma bind_Inr: "bind (Inr x) f = f x"
  by (simp add: bind_def)

lemma bind_Inl: "bind (Inl e) f = Inl e"
  by (simp add: bind_def)

lemma numeric_field_value:
  assumes "numeric_field n k"
  shows "as_number (get_or_zero n k) = Inr (nutrient n k)"
  using assms by (simp add: numeric_field_def nutrient_def split: sum.splits)

lemma py_le_numeric: "numeric_field n k \<Longrightarrow> py_le (get_or_zero n k) t = Inr (nutrient n k \<le> t)"
  by (simp add: py_le_def numeric_field_value)

lemma py_ge_numeric: "numeric_field n k \<Longrightarrow> py_ge (get_or_zero n k) t = Inr (nutrient n k \<ge> t)"
  by (simp add: py_ge_def numeric_field_value)

lemma py_gt_numeric: "numeric_field n k \<Longrightarrow> py_gt (get_or_zero n k) t = Inr (nutrient n k > t)"
  by (simp add: py_gt_def numeric_field_value)

lemmas py_cmp_numeric = py_le_numeric py_ge_numeric py_gt_numeric bind_Inr bind_Inl

lemma low_sodium_category_iff:
  "low_sodium_category n \<longleftrightarrow>
     (case map_of n ''category'' of None \<Rightarrow> PNone | Some v \<Rightarrow> v) \<in> set low_sodium_categories"
  by (auto simp: low_sodium_category_def low_sodium_categories_def
      split: option.splits pyval.splits)

section \<open>The scorer against the reference definition\<close>

lemma score_diabetes:
  assumes "numeric_field n ''carbs''" "numeric_field n ''protein''" "numeric_field n ''calories''"
  shows "calculate_safety_score n TIEU_DUONG =
    Inr (spec_score Diabetes (nutrient n ''calories'') (nutrient n ''protein'')
       (nutrient n ''carbs'') (nutrient n ''fat'') (low_sodium_category n))"
  using assms
  by (simp add: calculate_safety_score_def spec_score_def Let_def py_cmp_numeric)

lemma score_obesity:
  assumes "numeric_field n ''calories''" "numeric_field n ''fat''"
  shows "calculate_safety_score n BEO_PHI =
    Inr (spec_score Obesity (nutrient n ''calories'') (nutrient n ''protein'')
       (nutrient n ''carbs'') (nutrient n ''fat'') (low_sodium_category n))"
  using assms
  by (simp add: calculate_safety_score_def spec_score_def Let_def py_cmp_numeric
      canonical_distinct)

lemma score_hypertension:
  assumes "numeric_field n ''calories''" "numeric_field n ''protein''"
  shows "calculate_safety_score n HUYET_AP_CAO =
    Inr (spec_score Hypertension (nutrient n ''calories'') (nutrient n ''protein'')
       (nutrient n ''carbs'') (nutrient n ''fat'') (low_sodium_category n))"
  using assms
  by (simp add: calculate_safety_score_def spec_score_def Let_def py_cmp_numeric
      canonical_distinct low_sodium_category_iff)

lemma pho_bo_numeric:
  "numeric_field pho_bo ''calories''" "numeric_field pho_bo ''protein''"
  "numeric_field pho_bo ''carbs''" "numeric_field pho_bo ''fat''"
  by (simp_all add: numeric_field_def get_or_zero_def pho_bo_def)

lemma pho_bo_nutrients:
  "nutrient pho_bo ''calories'' = 450" "nutrient pho_bo ''protein'' = 30"
  "nutrient pho_bo ''carbs'' = 45" "nutrient pho_bo ''fat'' = 15"
  by (simp_all add: nutrient_def get_or_zero_def pho_bo_def)

text \<open>
  Claim C1. For every nutrition dictionary whose four nutrient fields are numbers (or
  missing, or null) and each of the three disease categories, the score computed by
  \<open>calculate_safety_score\<close> is the reference score of the specification: base 50, the
  deltas of the category, clamped to 0..100. For diabetes with calories 450, protein 30,
  carbs 45 and fat 15 the score is 75.
\<close>

theorem safety_score_is_reference_score:
  "(numeric_field n ''calories'' \<and> numeric_field n ''protein'' \<and> numeric_field n ''carbs'' \<and>
    numeric_field n ''fat'' \<longrightarrow>
    calculate_safety_score n (canonical_name c) =
      Inr (spec_score c (nutrient n ''calories'') (nutrient n ''protein'')
        (nutrient n ''carbs'') (nutrient n ''fat'') (low_sodium_category n)))
   \<and> calculate_safety_score pho_bo TIEU_DUONG = Inr 75"
proof (intro conjI impI)
  assume num: "numeric_field n ''calories'' \<and> numeric_field n ''protein'' \<and>
    numeric_field n ''carbs'' \<and> numeric_field n ''fat''"
  show "calculate_safety_score n (canonical_name c) =
      Inr (spec_score c (nutrient n ''calories'') (nutrient n ''protein'')
        (nutrient n ''carbs'') (nutrient n ''fat'') (low_sodium_category n))"
  proof (cases c)
    case Diabetes
    then show ?thesis using num score_diabetes [of n] by simp
  next
    case Obesity
    then show ?thesis using num score_obesity [of n] by simp
  next
    case Hypertension
    then show ?thesis using num score_hypertension [of n] by simp
  qed
next
  show "calculate_safety_score pho_bo TIEU_DUONG = Inr 75"
    by (simp add: score_diabetes pho_bo_numeric pho_bo_nutrients spec_score_def)
qed

theorem safety_score_is_reference_score_witness:
  "numeric_field pho_bo ''calories'' \<and> numeric_field pho_bo ''protein'' \<and>
   numeric_field pho_bo ''carbs'' \<and> numeric_field pho_bo ''fat'' \<and>
   calculate_safety_score pho_bo (canonical_name Obesity) = Inr 30 \<and>
   spec_score Obesity 450 30 45 15 False = 30"
proof -
  have ls: "\<not> low_sodium_category pho_bo"
    by (simp add: low_sodium_category_def pho_bo_def ascii_def)
  have sp: "spec_score Obesity 450 30 45 15 False = 30"
    by (simp add: spec_score_def)
  show ?thesis
    using safety_score_is_reference_score [of pho_bo Obesity] pho_bo_numeric pho_bo_nutrients
      ls sp
    by simp
qed

section \<open>Monotonicity in the carbohydrates\<close>

lemma get_or_zero_update_same: "get_or_zero (AList.update k (PNum r) n) k = PNum r"
  by (simp add: get_or_zero_def update_conv')

lemma get_or_zero_update_other: "k' \<noteq> k \<Longrightarrow> get_or_zero (AList.update k v n) k' = get_or_zero n k'"
  by (simp add: get_or_zero_def update_conv')

lemma numeric_field_update_same: "numeric_field (AList.update k (PNum r) n) k"
  by (simp add: numeric_field_def get_or_zero_update_same)

lemma nutrient_update_same: "nutrient (AList.update k (PNum r) n) k = r"
  by (simp add: nutrient_def get_or_zero_update_same)

lemma numeric_field_update_other:
  "k' \<noteq> k \<Longrightarrow> numeric_field (AList.update k v n) k' = numeric_field n k'"
  by (simp add: numeric_field_def get_or_zero_update_other)

lemma nutrient_update_other: "k' \<noteq> k \<Longrightarrow> nutrient (AList.update k v n) k' = nutrient n k'"
  by (simp add: nutrient_def get_or_zero_update_other)

lemma spec_score_diabetes_antitone:
  assumes "c1 \<le> c2"
  shows "spec_score Diabetes cal p c2 f ls \<le> spec_score Diabetes cal p c1 f ls"
  using assms by (simp add: spec_score_def)

text \<open>
  Claim C3. For diabetes, with calories, protein and fat held fixed, a larger carbs value
  never gives a larger score: for any two carbs values \<open>c1 \<le> c2\<close> (so also from 20 to 60)
  both scores are computed and the second is at most the first.
\<close>

theorem diabetes_score_antitone_in_carbs:
  assumes "c1 \<le> c2" and "numeric_field n ''protein''" and "numeric_field n ''calories''"
  shows "\<exists>s1 s2.
    calculate_safety_score (AList.update ''carbs'' (PNum c1) n) TIEU_DUONG = Inr s1 \<and>
    calculate_safety_score (AList.update ''carbs'' (PNum c2) n) TIEU_DUONG = Inr s2 \<and>
    s2 \<le> s1"
proof -
  let ?n1 = "AList.update ''carbs'' (PNum c1) n"
  let ?n2 = "AList.update ''carbs'' (PNum c2) n"
  have n1: "numeric_field ?n1 ''carbs''" "numeric_field ?n1 ''protein''"
    "numeric_field ?n1 ''calories''"
    using assms(2,3) by (simp_all add: numeric_field_update_same numeric_field_update_other)
  have n2: "numeric_field ?n2 ''carbs''" "numeric_field ?n2 ''protein''"
    "numeric_field ?n2 ''calories''"
    using assms(2,3) by (simp_all add: numeric_field_update_same numeric_field_update_other)
  have ls: "low_sodium_category ?n1 = low_sodium_category ?n2"
    by (simp add: low_sodium_category_def update_conv')
  have "spec_score Diabetes (nutrient n ''calories'') (nutrient n ''protein'') c2
          (nutrient n ''fat'') (low_sodium_category ?n2)
        \<le> spec_score Diabetes (nutrient n ''calories'') (nutrient n ''protein'') c1
          (nutrient n ''fat'') (low_sodium_category ?n2)"
    using assms(1) by (rule spec_score_diabetes_antitone)
  then show ?thesis
    using score_diabetes [OF n1] score_diabetes [OF n2] ls
    by (simp add: nutrient_update_same nutrient_update_other)
qed

theorem diabetes_score_antitone_in_carbs_witness:
  "(20::rat) \<le> 60 \<and> numeric_field pho_bo ''protein'' \<and> numeric_field pho_bo ''calories'' \<and>
   calculate_safety_score (AList.update ''carbs'' (PNum 20) pho_bo) TIEU_DUONG = Inr 85 \<and>
   calculate_safety_score (AList.update ''carbs'' (PNum 60) pho_bo) TIEU_DUONG = Inr 45"
proof -
  have le: "(20::rat) \<le> 60" by simp
  have s1: "calculate_safety_score (AList.update ''carbs'' (PNum 20) pho_bo) TIEU_DUONG = Inr 85"
    by (simp add: calculate_safety_score_def pho_bo_def get_or_zero_def py_le_def py_ge_def
        bind_def Let_def)
  have s2: "calculate_safety_score (AList.update ''carbs'' (PNum 60) pho_bo) TIEU_DUONG = Inr 45"
    by (simp add: calculate_safety_score_def pho_bo_def get_or_zero_def py_le_def py_ge_def
        bind_def Let_def)
  from diabetes_score_antitone_in_carbs [OF le pho_bo_numeric(2) pho_bo_numeric(1)]
  obtain t1 t2 where
    "calculate_safety_score (AList.update ''carbs'' (PNum 20) pho_bo) TIEU_DUONG = Inr t1"
    "calculate_safety_score (AList.update ''carbs'' (PNum 60) pho_bo) TIEU_DUONG = Inr t2"
    "t2 \<le> t1" by blast
  then show ?thesis using le pho_bo_numeric s1 s2 by simp
qed

section \<open>The normalizer\<close>

lemma normalize_disease_name_range:
  assumes "normalize_disease_name disease = Some c"
  shows "c = TIEU_DUONG \<or> c = BEO_PHI \<or> c = HUYET_AP_CAO"
proof -
  from assms have "c \<in> snd ` set DISEASE_MAP"
    unfolding normalize_disease_name_def by (metis map_of_SomeD image_eqI snd_conv)
  then show ?thesis by (auto simp: DISEASE_MAP_def)
qed

lemma normalize_disease_name_nonempty:
  "normalize_disease_name disease = Some c \<Longrightarrow> c \<noteq> []"
  using normalize_disease_name_range [of disease c] canonical_nonempty by auto

text \<open>
  Claim C4, as stated, fails for \<^verbatim>\<open>health_advisor_simple.py\<close>: its table has no key
  \<^verbatim>\<open>tang huyet ap\<close>, so that normalizer returns \<^verbatim>\<open>None\<close> for it and not the hypertension
  category.
\<close>

theorem simple_normalizer_tang_huyet_ap_unknown:
  "normalize_disease_name_simple TANG_HUYET_AP = None \<and>
   normalize_disease_name_simple TANG_HUYET_AP \<noteq> Some HUYET_AP_CAO"
  by (simp add: normalize_disease_name_simple_def DISEASE_MAP_simple_def TANG_HUYET_AP_def
      canonical_defs normalizer_defs)

text \<open>
  Claim C4, amended. In each implementation, every key of that implementation's own
  synonym table is normalized to the category the table gives it. \<^verbatim>\<open>dai thao duong\<close> maps
  to diabetes and \<^verbatim>\<open>thua can\<close> to obesity in both implementations; \<^verbatim>\<open>tang huyet ap\<close> maps to
  hypertension in \<^verbatim>\<open>health_advisor.py\<close>, whose table has that key.
\<close>

theorem synonym_tables_normalize:
  "map (normalize_disease_name \<circ> fst) DISEASE_MAP = map (Some \<circ> snd) DISEASE_MAP \<and>
   map (normalize_disease_name_simple \<circ> fst) DISEASE_MAP_simple =
     map (Some \<circ> snd) DISEASE_MAP_simple \<and>
   normalize_disease_name DAI_THAO_DUONG = Some TIEU_DUONG \<and>
   normalize_disease_name THUA_CAN = Some BEO_PHI \<and>
   normalize_disease_name TANG_HUYET_AP = Some HUYET_AP_CAO \<and>
   normalize_disease_name_simple DAI_THAO_DUONG = Some TIEU_DUONG \<and>
   normalize_disease_name_simple THUA_CAN = Some BEO_PHI"
proof (intro conjI)
  show "map (normalize_disease_name \<circ> fst) DISEASE_MAP = map (Some \<circ> snd) DISEASE_MAP"
    by (simp add: normalize_disease_name_def DISEASE_MAP_def canonical_defs normalizer_defs)
  show "map (normalize_disease_name_simple \<circ> fst) DISEASE_MAP_simple =
     map (Some \<circ> snd) DISEASE_MAP_simple"
    by (simp add: normalize_disease_name_simple_def DISEASE_MAP_simple_def canonical_defs
        normalizer_defs)
  show "normalize_disease_name DAI_THAO_DUONG = Some TIEU_DUONG"
    by (simp add: normalize_disease_name_def DISEASE_MAP_def DAI_THAO_DUONG_def canonical_defs
        normalizer_defs)
  show "normalize_disease_name THUA_CAN = Some BEO_PHI"
    by (simp add: normalize_disease_name_def DISEASE_MAP_def THUA_CAN_def canonical_defs
        normalizer_defs)
  show "normalize_disease_name TANG_HUYET_AP = Some HUYET_AP_CAO"
    by (simp add: normalize_disease_name_def DISEASE_MAP_def TANG_HUYET_AP_def canonical_defs
        normalizer_defs)
  show "normalize_disease_name_simple DAI_THAO_DUONG = Some TIEU_DUONG"
    by (simp add: normalize_disease_name_simple_def DISEASE_MAP_simple_def DAI_THAO_DUONG_def
        canonical_defs normalizer_defs)
  show "normalize_disease_name_simple THUA_CAN = Some BEO_PHI"
    by (simp add: normalize_disease_name_simple_def DISEASE_MAP_simple_def THUA_CAN_def
        canonical_defs normalizer_defs)
qed

section \<open>Unknown diseases\<close>

lemma error_text_names_categories:
  "sublist TIEU_DUONG
     (ascii ''Hi'' @ [0x1EC7] @ ascii ''n t'' @ [0x1EA1] @ ascii ''i ch'' @ [0x1EC9]
      @ ascii '' h'' @ [0x1ED7] @ ascii '' tr'' @ [0x1EE3] @ ascii '' 3 b'' @ [0x1EC7]
      @ ascii ''nh: Ti'' @ [0x1EC3] @ ascii ''u '' @ [0x111, 0x1B0, 0x1EDD] @ ascii ''ng, B''
      @ [0xE9] @ ascii ''o ph'' @ [0xEC] @ ascii '', Huy'' @ [0x1EBF] @ ascii ''t '' @ [0xE1]
      @ ascii ''p cao'')"
  "sublist BEO_PHI
     (ascii ''Hi'' @ [0x1EC7] @ ascii ''n t'' @ [0x1EA1] @ ascii ''i ch'' @ [0x1EC9]
      @ ascii '' h'' @ [0x1ED7] @ ascii '' tr'' @ [0x1EE3] @ ascii '' 3 b'' @ [0x1EC7]
      @ ascii ''nh: Ti'' @ [0x1EC3] @ ascii ''u '' @ [0x111, 0x1B0, 0x1EDD] @ ascii ''ng, B''
      @ [0xE9] @ ascii ''o ph'' @ [0xEC] @ ascii '', Huy'' @ [0x1EBF] @ ascii ''t '' @ [0xE1]
      @ ascii ''p cao'')"
  "sublist HUYET_AP_CAO
     (ascii ''Hi'' @ [0x1EC7] @ ascii ''n t'' @ [0x1EA1] @ ascii ''i ch'' @ [0x1EC9]
      @ ascii '' h'' @ [0x1ED7] @ ascii '' tr'' @ [0x1EE3] @ ascii '' 3 b'' @ [0x1EC7]
      @ ascii ''nh: Ti'' @ [0x1EC3] @ ascii ''u '' @ [0x111, 0x1B0, 0x1EDD] @ ascii ''ng, B''
      @ [0xE9] @ ascii ''o ph'' @ [0xEC] @ ascii '', Huy'' @ [0x1EBF] @ ascii ''t '' @ [0xE1]
      @ ascii ''p cao'')"
  by (simp_all add: canonical_defs sublist_code)

text \<open>
  Claim C5. For every disease text that matches no entry of the synonym map, whatever the
  food name and the portion, \<open>run\<close> returns the error result: it carries the text as
  entered, its error text lists the three supported categories by name, and it is neither
  a general advice nor a food analysis.
\<close>

theorem unknown_disease_error_response:
  assumes "normalize_disease_name disease = None"
  shows "\<exists>r. run db disease food_name portion_size = Inr (ErrorResponse r) \<and>
    ban_nhap r = disease \<and>
    sublist TIEU_DUONG (loi r) \<and> sublist BEO_PHI (loi r) \<and> sublist HUYET_AP_CAO (loi r) \<and>
    general_of (ErrorResponse r) = None \<and> analysis_of (ErrorResponse r) = None"
  using assms error_text_names_categories
  by (simp add: run_def create_error_response_def)

theorem unknown_disease_error_response_witness:
  "normalize_disease_name BENH_LA = None \<and>
   (\<exists>r. run example_db BENH_LA (Some PHO_BO) MOT_PHAN = Inr (ErrorResponse r) \<and>
     ban_nhap r = BENH_LA)"
proof -
  have none: "normalize_disease_name BENH_LA = None"
    by (simp add: normalize_disease_name_def DISEASE_MAP_def BENH_LA_def canonical_defs
        normalizer_defs)
  from unknown_disease_error_response [OF none, of example_db "Some PHO_BO" MOT_PHAN]
  show ?thesis using none by blast
qed

section \<open>Food analysis\<close>

lemma level_distinct:
  "RAT_AN_TOAN \<noteq> CHAP_NHAN_DUOC" "RAT_AN_TOAN \<noteq> KHONG_NEN_AN" "CHAP_NHAN_DUOC \<noteq> KHONG_NEN_AN"
  "CHAP_NHAN_DUOC \<noteq> RAT_AN_TOAN" "KHONG_NEN_AN \<noteq> RAT_AN_TOAN" "KHONG_NEN_AN \<noteq> CHAP_NHAN_DUOC"
  by (simp_all add: RAT_AN_TOAN_def CHAP_NHAN_DUOC_def KHONG_NEN_AN_def ascii_def)

lemma analysis_fields:
  assumes "analyze_food_for_disease db disease food_name portion_size = Inr (FoodAnalysis a)"
  shows "calculate_safety_score (dinh_duong_chi_tiet (thong_tin_mon_an a)) disease
           = Inr (diem_so a)"
    and "muc_do_an_toan a =
      (if diem_so a \<ge> 80 then RAT_AN_TOAN
       else if diem_so a \<ge> 60 then CHAP_NHAN_DUOC else KHONG_NEN_AN)"
  using assms
  by (auto simp: analyze_food_for_disease_def Let_def bind_def
      split: option.splits if_splits sum.splits)

text \<open>
  Claim C2. In every food-analysis result the safety level is the one of its score: very
  safe exactly when the score is at least 80, acceptable exactly when it is at least 60
  and below 80, not to be eaten exactly when it is below 60; and the score is the safety
  score of the nutrition data the result reports.
\<close>

theorem safety_level_follows_score:
  assumes "analyze_food_for_disease db disease food_name portion_size = Inr (FoodAnalysis a)"
  shows "(muc_do_an_toan a = RAT_AN_TOAN \<longleftrightarrow> diem_so a \<ge> 80) \<and>
    (muc_do_an_toan a = CHAP_NHAN_DUOC \<longleftrightarrow> 60 \<le> diem_so a \<and> diem_so a < 80) \<and>
    (muc_do_an_toan a = KHONG_NEN_AN \<longleftrightarrow> diem_so a < 60) \<and>
    calculate_safety_score (dinh_duong_chi_tiet (thong_tin_mon_an a)) disease = Inr (diem_so a)"
  using analysis_fields [OF assms] level_distinct by auto

lemma example_lookup_pho_bo:
  "get_fallback_nutrition PHO_BO = Some pho_bo"
  by (simp add: get_fallback_nutrition_def food_db_def PHO_BO_def pho_bo_def ascii_def
      normalizer_defs sublist_code)

theorem safety_level_follows_score_witness:
  "\<exists>a. analyze_food_for_disease example_db TIEU_DUONG PHO_BO MOT_PHAN = Inr (FoodAnalysis a) \<and>
     diem_so a = 75 \<and> muc_do_an_toan a = CHAP_NHAN_DUOC"
proof -
  have score: "calculate_safety_score pho_bo TIEU_DUONG = Inr 75"
    by (simp add: score_diabetes pho_bo_numeric pho_bo_nutrients spec_score_def)
  have nutrients: "\<exists>b. analyze_nutrients_for_disease pho_bo TIEU_DUONG = Inr b"
    by (simp add: analyze_nutrients_for_disease_def Let_def py_cmp_numeric pho_bo_numeric)
  have suggestions: "\<exists>s. get_adjustment_suggestions pho_bo TIEU_DUONG = Inr s"
    by (simp add: get_adjustment_suggestions_def Let_def py_cmp_numeric pho_bo_numeric)
  have ne: "pho_bo \<noteq> []"
    by (simp add: pho_bo_def)
  from nutrients suggestions score ne
  have "\<exists>a. analyze_food_for_disease example_db TIEU_DUONG PHO_BO MOT_PHAN
      = Inr (FoodAnalysis a) \<and> diem_so a = 75"
    by (auto simp: analyze_food_for_disease_def example_db_def falsy_dict_def
        example_lookup_pho_bo bind_Inr Let_def)
  then obtain a where a:
    "analyze_food_for_disease example_db TIEU_DUONG PHO_BO MOT_PHAN = Inr (FoodAnalysis a)"
    "diem_so a = 75" by blast
  from safety_level_follows_score [OF a(1)] a(2)
  have "muc_do_an_toan a = CHAP_NHAN_DUOC" by simp
  with a show ?thesis by blast
qed

section \<open>Missing nutrition data\<close>

lemma py_strip_Nil: "py_strip [] = []"
  by (simp add: py_strip_def)

text \<open>
  Claim C6. For every recognized disease and every food name for which neither the
  database lookup nor the fallback table gives nutrition data, the food analysis returns
  the result that reports the missing data, naming the food; that result is not a food
  analysis, so it has no score, no level and no nutrition numbers. It is what \<open>run\<close>
  returns for every supplied food name, that is, one that is not blank.
\<close>

theorem missing_nutrition_is_reported:
  assumes "normalize_disease_name d = Some disease"
    and "falsy_dict (get_food_nutrition db food_name)"
    and "get_fallback_nutrition food_name = None"
  shows "\<exists>r. analyze_food_for_disease db disease food_name portion_size = Inr (NoNutrition r) \<and>
    sublist food_name (nf_loi r) \<and>
    analysis_of (NoNutrition r) = None \<and> general_of (NoNutrition r) = None \<and>
    (py_strip food_name \<noteq> [] \<longrightarrow>
      run db d (Some food_name) portion_size = Inr (NoNutrition r))"
proof -
  have dis: "disease \<noteq> []"
    using assms(1) by (rule normalize_disease_name_nonempty)
  have run: "run db d (Some food_name) portion_size =
      analyze_food_for_disease db disease food_name portion_size"
    if "py_strip food_name \<noteq> []"
  proof -
    from that have "food_name \<noteq> []"
      using py_strip_Nil by auto
    with that assms(1) dis show ?thesis
      by (simp add: run_def)
  qed
  have sub: "sublist food_name
      ((ascii ''Kh'' @ [0xF4] @ ascii ''ng t'' @ [0xEC] @ ascii ''m th'' @ [0x1EA5]
        @ ascii ''y th'' @ [0xF4] @ ascii ''ng tin dinh d'' @ [0x1B0, 0x1EE1] @ ascii ''ng cho ''
        @ [0x27]) @ food_name @ [0x27])"
    by (rule sublist_appendI)
  have "\<exists>r. analyze_food_for_disease db disease food_name portion_size = Inr (NoNutrition r) \<and>
    sublist food_name (nf_loi r)"
    using assms(2,3) sub by (simp add: analyze_food_for_disease_def Let_def)
  then show ?thesis
    using run by auto
qed

theorem missing_nutrition_is_reported_witness:
  "normalize_disease_name DAI_THAO_DUONG = Some TIEU_DUONG \<and>
   py_strip MON_KHONG_TON_TAI \<noteq> [] \<and>
   falsy_dict (get_food_nutrition example_db MON_KHONG_TON_TAI) \<and>
   get_fallback_nutrition MON_KHONG_TON_TAI = None \<and>
   (\<exists>r. run example_db DAI_THAO_DUONG (Some MON_KHONG_TON_TAI) MOT_PHAN = Inr (NoNutrition r))"
proof -
  have h1: "normalize_disease_name DAI_THAO_DUONG = Some TIEU_DUONG"
    by (simp add: normalize_disease_name_def DISEASE_MAP_def DAI_THAO_DUONG_def canonical_defs
        normalizer_defs)
  have h2: "py_strip MON_KHONG_TON_TAI \<noteq> []"
    by (simp add: MON_KHONG_TON_TAI_def ascii_def normalizer_defs)
  have h3: "falsy_dict (get_food_nutrition example_db MON_KHONG_TON_TAI)"
    by (simp add: falsy_dict_def example_db_def)
  have h4: "get_fallback_nutrition MON_KHONG_TON_TAI = None"
    by (simp add: get_fallback_nutrition_def food_db_def MON_KHONG_TON_TAI_def ascii_def
        normalizer_defs sublist_code)
  from missing_nutrition_is_reported [OF h1 h3 h4, of MOT_PHAN]
  show ?thesis using h1 h2 h3 h4 by blast
qed

section \<open>Out-of-domain values\<close>

lemma score_total:
  assumes "numeric_field n ''calories''" "numeric_field n ''protein''"
    "numeric_field n ''carbs''" "numeric_field n ''fat''"
  shows "\<exists>s. calculate_safety_score n disease = Inr s"
  using assms by (simp add: calculate_safety_score_def Let_def py_cmp_numeric)

lemma nutrients_total:
  assumes "numeric_field n ''calories''" "numeric_field n ''carbs''"
  shows "\<exists>b. analyze_nutrients_for_disease n disease = Inr b"
  using assms by (simp add: analyze_nutrients_for_disease_def Let_def py_cmp_numeric)

lemma suggestions_total:
  assumes "numeric_field n ''calories''" "numeric_field n ''carbs''"
  shows "\<exists>s. get_adjustment_suggestions n disease = Inr s"
  using assms by (simp add: get_adjustment_suggestions_def Let_def py_cmp_numeric)

text \<open>
  Claim C7, as stated, fails: nothing validates the nutrition values. A food whose data
  has calories -100 is analysed and scored; for diabetes it gets the full score of 100.
\<close>

theorem negative_calories_are_scored:
  "map_of negative_food ''calories'' = Some (PNum (- 100)) \<and>
   calculate_safety_score negative_food TIEU_DUONG = Inr 100 \<and>
   map_sum id (map_option diem_so \<circ> analysis_of)
     (analyze_food_for_disease negative_db TIEU_DUONG PHO_BO MOT_PHAN) = Inr (Some 100)"
proof -
  have num: "numeric_field negative_food ''calories''" "numeric_field negative_food ''protein''"
    "numeric_field negative_food ''carbs''" "numeric_field negative_food ''fat''"
    by (simp_all add: numeric_field_def get_or_zero_def negative_food_def)
  have val: "nutrient negative_food ''calories'' = - 100" "nutrient negative_food ''protein'' = 20"
    "nutrient negative_food ''carbs'' = 10" "nutrient negative_food ''fat'' = 5"
    by (simp_all add: nutrient_def get_or_zero_def negative_food_def)
  have score: "calculate_safety_score negative_food TIEU_DUONG = Inr 100"
    by (simp add: score_diabetes num val spec_score_def)
  obtain b where b: "analyze_nutrients_for_disease negative_food TIEU_DUONG = Inr b"
    using nutrients_total [OF num(1) num(3)] by blast
  obtain s where s: "get_adjustment_suggestions negative_food TIEU_DUONG = Inr s"
    using suggestions_total [OF num(1) num(3)] by blast
  have ne: "negative_food \<noteq> []"
    by (simp add: negative_food_def)
  have "map_sum id (map_option diem_so \<circ> analysis_of)
     (analyze_food_for_disease negative_db TIEU_DUONG PHO_BO MOT_PHAN) = Inr (Some 100)"
    using score b s ne
    by (simp add: analyze_food_for_disease_def negative_db_def falsy_dict_def bind_Inr Let_def
        split: prod.splits)
  moreover have "map_of negative_food ''calories'' = Some (PNum (- 100))"
    by (simp add: negative_food_def)
  ultimately show ?thesis using score by simp
qed

text \<open>
  Claim C7, amended. The food analysis does not validate nutrition values: whenever the
  lookup resolves a non-empty nutrition dictionary whose four nutrient fields are numbers,
  negative or not, the analysis goes on to scoring and returns a food analysis that reports
  those values unchanged with the safety score computed from them.
\<close>

theorem nutrition_values_are_scored_unvalidated:
  assumes "get_food_nutrition db food_name = Some n" and "n \<noteq> []"
    and "numeric_field n ''calories''" and "numeric_field n ''protein''"
    and "numeric_field n ''carbs''" and "numeric_field n ''fat''"
  shows "\<exists>a. analyze_food_for_disease db disease food_name portion_size = Inr (FoodAnalysis a) \<and>
    dinh_duong_chi_tiet (thong_tin_mon_an a) = n \<and>
    calculate_safety_score n disease = Inr (diem_so a)"
proof -
  obtain sc where sc: "calculate_safety_score n disease = Inr sc"
    using score_total [OF assms(3-6)] by blast
  obtain b where b: "analyze_nutrients_for_disease n disease = Inr b"
    using nutrients_total [OF assms(3) assms(5)] by blast
  obtain sg where sg: "get_adjustment_suggestions n disease = Inr sg"
    using suggestions_total [OF assms(3) assms(5)] by blast
  show ?thesis
    using assms(1,2) sc b sg
    by (simp add: analyze_food_for_disease_def falsy_dict_def bind_Inr Let_def split: prod.splits)
qed

theorem nutrition_values_are_scored_unvalidated_witness:
  "get_food_nutrition negative_db PHO_BO = Some negative_food \<and> negative_food \<noteq> [] \<and>
   numeric_field negative_food ''calories'' \<and> numeric_field negative_food ''protein'' \<and>
   numeric_field negative_food ''carbs'' \<and> numeric_field negative_food ''fat'' \<and>
   nutrient negative_food ''calories'' < 0 \<and>
   (\<exists>a. analyze_food_for_disease negative_db BEO_PHI PHO_BO MOT_PHAN = Inr (FoodAnalysis a) \<and>
     dinh_duong_chi_tiet (thong_tin_mon_an a) = negative_food \<and>
     calculate_safety_score negative_food BEO_PHI = Inr (diem_so a))"
proof -
  have h1: "get_food_nutrition negative_db PHO_BO = Some negative_food"
    by (simp add: negative_db_def)
  have h2: "negative_food \<noteq> []"
    by (simp add: negative_food_def)
  have num: "numeric_field negative_food ''calories''" "numeric_field negative_food ''protein''"
    "numeric_field negative_food ''carbs''" "numeric_field negative_food ''fat''"
    by (simp_all add: numeric_field_def get_or_zero_def negative_food_def)
  have neg: "nutrient negative_food ''calories'' < 0"
    by (simp add: nutrient_def get_or_zero_def negative_food_def)
  from nutrition_values_are_scored_unvalidated [OF h1 h2 num, of BEO_PHI MOT_PHAN]
  show ?thesis using h1 h2 num neg by blast
qed

section \<open>Missing and null values\<close>

lemma get_or_zero_missing:
  assumes "map_of n k = None \<or> map_of n k = Some PNone"
  shows "get_or_zero n k = PNum 0"
  using assms by (auto simp: get_or_zero_def)

lemma get_or_zero_update_zero:
  assumes "map_of n k = None \<or> map_of n k = Some PNone"
  shows "get_or_zero (AList.update k (PNum 0) n) k' = get_or_zero n k'"
proof (cases "k' = k")
  case True
  then show ?thesis
    using get_or_zero_missing [OF assms] by (simp add: get_or_zero_update_same)
next
  case False
  then show ?thesis by (simp add: get_or_zero_update_other)
qed

text \<open>
  Claim C8, as stated, fails in its last part: the breakdown carries no note of a
  substitution. For a dictionary without \<^verbatim>\<open>carbs\<close> the diabetes breakdown is the single entry
  with the value \<^verbatim>\<open>0g\<close>, the limit, the status \<^verbatim>\<open>AN TOAN\<close> and the fixed reason, the same
  entry as for a dictionary whose \<^verbatim>\<open>carbs\<close> is the number 0.
\<close>

theorem missing_carbs_breakdown_has_no_note:
  "map_of [(''calories'', PNum 450)] ''carbs'' = None \<and>
   analyze_nutrients_for_disease [(''calories'', PNum 450)] TIEU_DUONG =
     Inr [(ascii ''carbohydrate'',
           \<lparr>gia_tri = [Val (PNum 0), Lit (ascii ''g'')],
            gioi_han = Some (ascii ''< 50g/b'' @ [0x1EEF] @ ascii ''a''),
            trang_thai = (ascii ''AN TO'' @ [0xC0] @ ascii ''N''),
            ly_do = (ascii ''Carbs cao l'' @ [0xE0] @ ascii ''m t'' @ [0x103] @ ascii ''ng ''
                     @ [0x111, 0x1B0, 0x1EDD] @ ascii ''ng huy'' @ [0x1EBF] @ ascii ''t'')\<rparr>)] \<and>
   analyze_nutrients_for_disease [(''calories'', PNum 450)] TIEU_DUONG =
     analyze_nutrients_for_disease [(''calories'', PNum 450), (''carbs'', PNum 0)] TIEU_DUONG"
  by (simp add: analyze_nutrients_for_disease_def get_or_zero_def py_le_def bind_def Let_def)

text \<open>
  Claim C8, amended. A nutrient value that is missing or null is treated as zero and
  comparing it does not raise: the score and the per-nutrient breakdown are those of the
  same dictionary with that nutrient set to the number 0, and when the other three
  nutrients are numbers the score is computed. The breakdown reports the value 0 as it
  does for a genuine zero.
\<close>

theorem missing_value_scored_as_zero:
  assumes "map_of n k = None \<or> map_of n k = Some PNone"
    and "k \<in> {''calories'', ''carbs'', ''fat'', ''protein''}"
  shows "numeric_field n k \<and> nutrient n k = 0 \<and>
    calculate_safety_score n disease =
      calculate_safety_score (AList.update k (PNum 0) n) disease \<and>
    analyze_nutrients_for_disease n disease =
      analyze_nutrients_for_disease (AList.update k (PNum 0) n) disease \<and>
    ((\<forall>k' \<in> {''calories'', ''carbs'', ''fat'', ''protein''}. k' \<noteq> k \<longrightarrow> numeric_field n k')
      \<longrightarrow> (\<exists>s. calculate_safety_score n disease = Inr s))"
proof (intro conjI impI)
  show num: "numeric_field n k"
    by (simp add: numeric_field_def get_or_zero_missing [OF assms(1)])
  show "nutrient n k = 0"
    by (simp add: nutrient_def get_or_zero_missing [OF assms(1)])
  have cat: "map_of (AList.update k (PNum 0) n) ''category'' = map_of n ''category''"
    using assms(2) by (auto simp: update_conv')
  show "calculate_safety_score n disease =
      calculate_safety_score (AList.update k (PNum 0) n) disease"
    by (simp add: calculate_safety_score_def Let_def get_or_zero_update_zero [OF assms(1)] cat)
  show "analyze_nutrients_for_disease n disease =
      analyze_nutrients_for_disease (AList.update k (PNum 0) n) disease"
    by (simp add: analyze_nutrients_for_disease_def Let_def
        get_or_zero_update_zero [OF assms(1)])
  assume others: "\<forall>k' \<in> {''calories'', ''carbs'', ''fat'', ''protein''}.
    k' \<noteq> k \<longrightarrow> numeric_field n k'"
  have "numeric_field n ''calories''" "numeric_field n ''protein''"
    "numeric_field n ''carbs''" "numeric_field n ''fat''"
    using others num by auto
  then show "\<exists>s. calculate_safety_score n disease = Inr s"
    by (rule score_total)
qed

theorem missing_value_scored_as_zero_witness:
  "map_of [(''calories'', PNum 450), (''protein'', PNone)] ''carbs'' = None \<and>
   map_of [(''calories'', PNum 450), (''protein'', PNone)] ''protein'' = Some PNone \<and>
   calculate_safety_score [(''calories'', PNum 450), (''protein'', PNone)] TIEU_DUONG = Inr 70 \<and>
   calculate_safety_score
     [(''calories'', PNum 450), (''protein'', PNone), (''carbs'', PNum 0)] TIEU_DUONG = Inr 70 \<and>
   calculate_safety_score [(''calories'', PNum 450), (''protein'', PNum 0)] TIEU_DUONG = Inr 70"
proof -
  let ?n = "[(''calories'', PNum 450), (''protein'', PNone)]"
  have h1: "map_of ?n ''carbs'' = None \<or> map_of ?n ''carbs'' = Some PNone"
    by simp
  have h2: "map_of ?n ''protein'' = None \<or> map_of ?n ''protein'' = Some PNone"
    by simp
  have s: "calculate_safety_score ?n TIEU_DUONG = Inr 70"
    by (simp add: calculate_safety_score_def get_or_zero_def py_le_def py_ge_def bind_def Let_def)
  from missing_value_scored_as_zero [OF h1, of TIEU_DUONG]
  have "calculate_safety_score ?n TIEU_DUONG =
      calculate_safety_score (AList.update ''carbs'' (PNum 0) ?n) TIEU_DUONG"
    by simp
  moreover from missing_value_scored_as_zero [OF h2, of TIEU_DUONG]
  have "calculate_safety_score ?n TIEU_DUONG =
      calculate_safety_score (AList.update ''protein'' (PNum 0) ?n) TIEU_DUONG"
    by simp
  ultimately show ?thesis using s by simp
qed

section \<open>The lists of the general advice\<close>

text \<open>
  Claim C9, as stated, fails: the list of foods to restrict and the list of foods to
  prefer of the general advice come from the static tables, which have seven items each.
\<close>

theorem general_advice_static_lists_have_seven_items:
  "map_option (length \<circ> han_che_nghiem_ngat)
     (general_of (get_general_health_advice example_db TIEU_DUONG)) = Some 7 \<and>
   map_option (length \<circ> nen_an_nhieu)
     (general_of (get_general_health_advice example_db TIEU_DUONG)) = Some 7"
  by (simp add: get_general_health_advice_def get_restricted_foods_def
      get_recommended_foods_def Let_def)

text \<open>
  Claim C9, amended. For every recognized disease category the general advice has exactly
  seven foods to restrict and seven foods to prefer from the static tables; the lists taken
  from the disease rules of the database (foods to avoid completely, encouraged foods) have
  at most five items each.
\<close>

theorem general_advice_list_lengths:
  "\<exists>g. get_general_health_advice db (canonical_name c) = GeneralAdvice g \<and>
     length (han_che_nghiem_ngat g) = 7 \<and> length (nen_an_nhieu g) = 7 \<and>
     (\<forall>l. tranh_hoan_toan g = Some l \<longrightarrow> length l \<le> 5) \<and>
     (\<forall>l. khuyen_khich g = Some l \<longrightarrow> length l \<le> 5)"
proof -
  have restricted: "length (get_restricted_foods (canonical_name c)) = 7"
    by (cases c) (simp_all add: get_restricted_foods_def canonical_distinct)
  have recommended: "length (get_recommended_foods (canonical_name c)) = 7"
    by (cases c) (simp_all add: get_recommended_foods_def canonical_distinct)
  show ?thesis
    using restricted recommended
    by (auto simp: get_general_health_advice_def Let_def split: option.splits if_splits)
qed

theorem general_advice_list_lengths_witness:
  "\<exists>g l. get_general_health_advice example_db (canonical_name Obesity) = GeneralAdvice g \<and>
     tranh_hoan_toan g = Some l \<and> length l = 3 \<and> length l \<le> 5 \<and>
     length (han_che_nghiem_ngat g) = 7"
proof -
  from general_advice_list_lengths [of example_db Obesity]
  obtain g where g: "get_general_health_advice example_db (canonical_name Obesity) = GeneralAdvice g"
    "length (han_che_nghiem_ngat g) = 7"
    "\<forall>l. tranh_hoan_toan g = Some l \<longrightarrow> length l \<le> 5"
    by blast
  from g(1) have "\<exists>l. tranh_hoan_toan g = Some l \<and> length l = 3"
    by (auto simp: get_general_health_advice_def example_db_def Let_def)
  then obtain l where l: "tranh_hoan_toan g = Some l" "length l = 3" by blast
  with g show ?thesis by auto
qed

section \<open>Blank food names\<close>

lemma py_strip_blank:
  assumes "\<forall>ch \<in> set name. py_isspace ch"
  shows "py_strip name = []"
proof -
  have blank: "dropWhile py_isspace name = []"
    using assms by (simp add: dropWhile_eq_Nil_conv)
  show ?thesis unfolding py_strip_def blank by simp
qed

text \<open>
  Claim C10. For every disease text that normalizes to a recognized disease, a food name
  that is empty or consists of white space only gives exactly the result of a call
  without a food name, and that result is the general advice of the disease.
\<close>

theorem blank_food_name_is_no_food_name:
  assumes "normalize_disease_name disease = Some c"
    and "\<forall>ch \<in> set name. py_isspace ch"
  shows "run db disease (Some name) portion_size = run db disease None portion_size \<and>
    run db disease None portion_size = Inr (get_general_health_advice db c)"
  using assms(1) py_strip_blank [OF assms(2)] normalize_disease_name_nonempty [OF assms(1)]
  by (simp add: run_def)

theorem blank_food_name_is_no_food_name_witness:
  "normalize_disease_name DAI_THAO_DUONG = Some TIEU_DUONG \<and>
   list_all py_isspace [0x20, 0x09, 0x20] \<and>
   run example_db DAI_THAO_DUONG (Some [0x20, 0x09, 0x20]) MOT_PHAN =
     run example_db DAI_THAO_DUONG None MOT_PHAN \<and>
   run example_db DAI_THAO_DUONG (Some []) MOT_PHAN =
     Inr (get_general_health_advice example_db TIEU_DUONG)"
proof -
  have h1: "normalize_disease_name DAI_THAO_DUONG = Some TIEU_DUONG"
    by (simp add: normalize_disease_name_def DISEASE_MAP_def DAI_THAO_DUONG_def canonical_defs
        normalizer_defs)
  have h2: "\<forall>ch \<in> set [0x20, 0x09, 0x20]. py_isspace ch"
    by (simp add: py_isspace_def)
  have h3: "\<forall>ch \<in> set []. py_isspace ch"
    by simp
  from blank_food_name_is_no_food_name [OF h1 h2, of example_db MOT_PHAN]
    blank_food_name_is_no_food_name [OF h1 h3, of example_db MOT_PHAN]
  show ?thesis using h1 h2 by (simp add: list_all_iff)
qed

end
